theory Spec2Isabelle
  imports Complex_Main "HOL-Library.Sublist"
begin

section \<open>JavaScript values, strings and errors\<close>

text \<open>
  The services are TypeScript classes running on Node. Strings are modelled as lists of
  8-bit characters: the model covers the JavaScript strings whose code units are below
  256. In that range the white space of \<^verbatim>\<open>\s\<close> and \<^verbatim>\<open>trim()\<close> is
  TAB, LF, VT, FF, CR, SPACE and NBSP, the line terminators are LF and CR, and
  \<^verbatim>\<open>toLowerCase()\<close> maps A-Z and the accented capitals 0xC0-0xDE (without 0xD7)
  to the letter 32 places further.
\<close>

definition isWhiteSpace :: "char \<Rightarrow> bool" where
  "isWhiteSpace c =
     (c \<in> {CHR 0x09, CHR 0x0A, CHR 0x0B, CHR 0x0C, CHR 0x0D, CHR 0x20, CHR 0xA0})"

definition isLineTerminator :: "char \<Rightarrow> bool" where
  "isLineTerminator c = (c = CHR 0x0A \<or> c = CHR 0x0D)"

definition trim :: "string \<Rightarrow> string" where
  "trim s = rev (dropWhile isWhiteSpace (rev (dropWhile isWhiteSpace s)))"

definition toLowerCaseChar :: "char \<Rightarrow> char" where
  "toLowerCaseChar c =
     (let n = (of_char c :: nat) in
      if (65 \<le> n \<and> n \<le> 90) \<or> (192 \<le> n \<and> n \<le> 222 \<and> n \<noteq> 215)
      then char_of (n + 32) else c)"

definition toLowerCase :: "string \<Rightarrow> string" where
  "toLowerCase s = map toLowerCaseChar s"

text \<open>\<^verbatim>\<open>s.includes(q)\<close>: \<open>q\<close> occurs in \<open>s\<close> as a contiguous substring.\<close>

fun includesStr :: "string \<Rightarrow> string \<Rightarrow> bool" where
  "includesStr [] q = (q = [])"
| "includesStr (c # cs) q = (prefix q (c # cs) \<or> includesStr cs q)"

text \<open>\<^verbatim>\<open>s.endsWith(q)\<close>.\<close>

definition endsWith :: "string \<Rightarrow> string \<Rightarrow> bool" where
  "endsWith s q = suffix q s"

text \<open>
  A value as \<^verbatim>\<open>JSON.parse\<close> produces it, which is also what a webview message
  field can hold. \<open>None\<close> of type \<open>jsval\<close> is \<^verbatim>\<open>undefined\<close>. An object is
  its list of properties; \<^verbatim>\<open>JSON.parse\<close> keeps one value per key.
\<close>

datatype json =
    JNull
  | JBool bool
  | JNumber real
  | JString string
  | JArray "json list"
  | JObject "(string \<times> json) list"

type_synonym jsval = "json option"

text \<open>
  A thrown value: an instance of \<^verbatim>\<open>Error\<close> with its message (what Node and the
  language throw: TypeError, SyntaxError, the system errors of \<^verbatim>\<open>fs\<close>), or any
  other value.
\<close>

datatype error = JsError string | Thrown json

text \<open>Truthiness of a value, as \<^verbatim>\<open>||\<close>, \<^verbatim>\<open>&&\<close> and \<^verbatim>\<open>if\<close> test it.\<close>

fun truthy :: "jsval \<Rightarrow> bool" where
  "truthy None = False"
| "truthy (Some JNull) = False"
| "truthy (Some (JBool b)) = b"
| "truthy (Some (JNumber r)) = (r \<noteq> 0)"
| "truthy (Some (JString s)) = (s \<noteq> [])"
| "truthy (Some (JArray xs)) = True"
| "truthy (Some (JObject kvs)) = True"

text \<open>\<^verbatim>\<open>v || undefined\<close>.\<close>

definition orUndefined :: "jsval \<Rightarrow> jsval" where
  "orUndefined v = (if truthy v then v else None)"

text \<open>
  \<^verbatim>\<open>v.description\<close> for a parsed value \<open>v\<close>: reading a property of \<^verbatim>\<open>null\<close>
  throws a TypeError, an object gives the property or \<^verbatim>\<open>undefined\<close>, and every
  other value has no such property.
\<close>

fun getDescription :: "json \<Rightarrow> error + jsval" where
  "getDescription JNull =
     Inl (JsError ''Cannot read properties of null (reading 'description')'')"
| "getDescription (JObject kvs) = Inr (map_of kvs ''description'')"
| "getDescription (JBool b) = Inr None"
| "getDescription (JNumber r) = Inr None"
| "getDescription (JString s) = Inr None"
| "getDescription (JArray xs) = Inr None"

text \<open>
  \<^verbatim>\<open>v?.toLowerCase().includes(q)\<close> for a field \<open>v\<close>: \<^verbatim>\<open>undefined\<close> (falsy)
  when \<open>v\<close> is \<^verbatim>\<open>undefined\<close> or \<^verbatim>\<open>null\<close>, the substring test when \<open>v\<close> is a
  string, and a TypeError otherwise, since only strings have the method.
\<close>

fun optLowerIncludes :: "jsval \<Rightarrow> string \<Rightarrow> error + bool" where
  "optLowerIncludes None q = Inr False"
| "optLowerIncludes (Some JNull) q = Inr False"
| "optLowerIncludes (Some (JString s)) q = Inr (includesStr (toLowerCase s) q)"
| "optLowerIncludes (Some (JBool b)) q = Inl (JsError ''toLowerCase is not a function'')"
| "optLowerIncludes (Some (JNumber r)) q = Inl (JsError ''toLowerCase is not a function'')"
| "optLowerIncludes (Some (JArray xs)) q = Inl (JsError ''toLowerCase is not a function'')"
| "optLowerIncludes (Some (JObject kvs)) q = Inl (JsError ''toLowerCase is not a function'')"

text \<open>
  \<^verbatim>\<open>query.toLowerCase()\<close> for an argument of any type: a TypeError unless it is a
  string.
\<close>

fun lowerQueryOf :: "jsval \<Rightarrow> error + string" where
  "lowerQueryOf (Some (JString q)) = Inr (toLowerCase q)"
| "lowerQueryOf None =
     Inl (JsError ''Cannot read properties of undefined (reading 'toLowerCase')'')"
| "lowerQueryOf (Some JNull) =
     Inl (JsError ''Cannot read properties of null (reading 'toLowerCase')'')"
| "lowerQueryOf (Some (JBool b)) = Inl (JsError ''query.toLowerCase is not a function'')"
| "lowerQueryOf (Some (JNumber r)) = Inl (JsError ''query.toLowerCase is not a function'')"
| "lowerQueryOf (Some (JArray xs)) = Inl (JsError ''query.toLowerCase is not a function'')"
| "lowerQueryOf (Some (JObject kvs)) = Inl (JsError ''query.toLowerCase is not a function'')"

text \<open>\<^verbatim>\<open>xs.filter(p)\<close> for a callback that may throw: the first throw ends the call.\<close>

fun filterE :: "('a \<Rightarrow> error + bool) \<Rightarrow> 'a list \<Rightarrow> error + 'a list" where
  "filterE p [] = Inr []"
| "filterE p (x # xs) =
     (case p x of
        Inl e \<Rightarrow> Inl e
      | Inr b \<Rightarrow>
          (case filterE p xs of
             Inl e \<Rightarrow> Inl e
           | Inr ys \<Rightarrow> Inr (if b then x # ys else ys)))"

section \<open>Regular expressions of the description heuristic\<close>

text \<open>
  The three patterns of \<^verbatim>\<open>extractDescription\<close> are sequences of single-character
  atoms, each with a quantifier, and one capture group. \<open>run\<close> is the backtracking
  matcher of the language on such sequences: a greedy quantifier tries one more character
  first, a lazy one tries the rest of the pattern first. It returns the text of the group.
\<close>

datatype charclass =
    Lit char      \<comment> \<open>the character itself\<close>
  | Space         \<comment> \<open>\<^verbatim>\<open>\s\<close>\<close>
  | Dot           \<comment> \<open>\<^verbatim>\<open>.\<close>: anything but a line terminator\<close>
  | AnyChar       \<comment> \<open>\<^verbatim>\<open>[\s\S]\<close>\<close>

datatype quantifier = Once | Star | Plus | LazyStar

datatype node = Atom charclass quantifier | GroupOpen | GroupClose

datatype anchor =
    Unanchored
  | StartOfInput  \<comment> \<open>\<^verbatim>\<open>^\<close> without the m flag\<close>
  | StartOfLine   \<comment> \<open>\<^verbatim>\<open>^\<close> with the m flag\<close>

fun matches :: "charclass \<Rightarrow> char \<Rightarrow> bool" where
  "matches (Lit c) x = (x = c)"
| "matches Space x = isWhiteSpace x"
| "matches Dot x = (\<not> isLineTerminator x)"
| "matches AnyChar x = True"

definition capture :: "bool \<Rightarrow> string \<Rightarrow> char \<Rightarrow> string" where
  "capture g cap x = (if g then cap @ [x] else cap)"

fun run :: "node list \<Rightarrow> string \<Rightarrow> bool \<Rightarrow> string \<Rightarrow> string option" where
  "run [] s g cap = Some cap"
| "run (GroupOpen # ns) s g cap = run ns s True cap"
| "run (GroupClose # ns) s g cap = run ns s False cap"
| "run (Atom c Once # ns) [] g cap = None"
| "run (Atom c Once # ns) (x # xs) g cap =
     (if matches c x then run ns xs g (capture g cap x) else None)"
| "run (Atom c Star # ns) [] g cap = run ns [] g cap"
| "run (Atom c Star # ns) (x # xs) g cap =
     (case (if matches c x then run (Atom c Star # ns) xs g (capture g cap x) else None) of
        Some r \<Rightarrow> Some r
      | None \<Rightarrow> run ns (x # xs) g cap)"
| "run (Atom c Plus # ns) [] g cap = None"
| "run (Atom c Plus # ns) (x # xs) g cap =
     (if matches c x then run (Atom c Star # ns) xs g (capture g cap x) else None)"
| "run (Atom c LazyStar # ns) [] g cap = run ns [] g cap"
| "run (Atom c LazyStar # ns) (x # xs) g cap =
     (case run ns (x # xs) g cap of
        Some r \<Rightarrow> Some r
      | None \<Rightarrow>
          (if matches c x then run (Atom c LazyStar # ns) xs g (capture g cap x)
           else None))"

text \<open>Whether a match may start after the character \<open>prev\<close> (\<open>None\<close> at the start).\<close>

fun canStart :: "anchor \<Rightarrow> char option \<Rightarrow> bool" where
  "canStart Unanchored prev = True"
| "canStart StartOfInput prev = (prev = None)"
| "canStart StartOfLine None = True"
| "canStart StartOfLine (Some p) = isLineTerminator p"

text \<open>\<^verbatim>\<open>s.match(re)\<close> without the g flag: the leftmost start that matches wins.\<close>

fun execFrom :: "anchor \<Rightarrow> node list \<Rightarrow> char option \<Rightarrow> string \<Rightarrow> string option" where
  "execFrom a ns prev [] = (if canStart a prev then run ns [] False [] else None)"
| "execFrom a ns prev (x # xs) =
     (case (if canStart a prev then run ns (x # xs) False [] else None) of
        Some cap \<Rightarrow> Some cap
      | None \<Rightarrow> execFrom a ns (Some x) xs)"

definition lits :: "string \<Rightarrow> node list" where
  "lits s = map (\<lambda>c. Atom (Lit c) Once) s"

text \<open>The first capture group of \<^verbatim>\<open>s.match(re)\<close>, \<open>None\<close> when there is no match.\<close>

definition matchGroup :: "anchor \<times> node list \<Rightarrow> string \<Rightarrow> string option" where
  "matchGroup re s = execFrom (fst re) (snd re) None s"

text \<open>\<^verbatim>\<open>/^---\s*\n([\s\S]*?)\n---/\<close>\<close>

definition frontmatterRe :: "anchor \<times> node list" where
  "frontmatterRe =
     (StartOfInput,
      lits ''---'' @ [Atom Space Star, Atom (Lit CHR 0x0A) Once,
        GroupOpen, Atom AnyChar LazyStar, GroupClose, Atom (Lit CHR 0x0A) Once] @ lits ''---'')"

text \<open>\<^verbatim>\<open>/description:\s*(.+)/\<close>\<close>

definition descriptionRe :: "anchor \<times> node list" where
  "descriptionRe =
     (Unanchored,
      lits ''description:'' @ [Atom Space Star, GroupOpen, Atom Dot Plus, GroupClose])"

text \<open>\<^verbatim>\<open>/^#\s+(.+)/m\<close>\<close>

definition titleRe :: "anchor \<times> node list" where
  "titleRe =
     (StartOfLine, lits ''#'' @ [Atom Space Plus, GroupOpen, Atom Dot Plus, GroupClose])"

text \<open>
  \<^verbatim>\<open>extractDescription\<close> of AgentsManager.ts and CommandsManager.ts (the two are the
  same text): the front matter first, then the first title line, else \<^verbatim>\<open>undefined\<close>.
\<close>

definition extractDescription :: "string \<Rightarrow> string option" where
  "extractDescription content =
     (case (case matchGroup frontmatterRe content of
              Some frontmatter \<Rightarrow>
                (case matchGroup descriptionRe frontmatter of
                   Some d \<Rightarrow> Some (trim d)
                 | None \<Rightarrow> None)
            | None \<Rightarrow> None) of
        Some d \<Rightarrow> Some d
      | None \<Rightarrow>
          (case matchGroup titleRe content of
             Some t \<Rightarrow> Some (trim t)
           | None \<Rightarrow> None))"

section \<open>The platform\<close>

text \<open>
  What the services call on Node, as one record per call of a service: the file system
  (\<^verbatim>\<open>fs.existsSync\<close> never throws; \<^verbatim>\<open>fs.readdirSync\<close> and
  \<^verbatim>\<open>fs.readFileSync\<close> may), \<^verbatim>\<open>os.homedir()\<close> and \<^verbatim>\<open>process.cwd()\<close>
  (which throw when the directory cannot be determined, as \<^verbatim>\<open>process.cwd()\<close> does in
  a working directory that has been removed), the path functions, \<^verbatim>\<open>JSON.parse\<close>
  and the clock. A directory listing is a list of entries; the listing without
  \<^verbatim>\<open>withFileTypes\<close> is the list of their names.
\<close>

record Dirent =
  d_name :: string
  isDirectory :: bool

record Env =
  os_homedir :: "error + string"
  process_cwd :: "error + string"
  path_join :: "string list \<Rightarrow> string"
  path_basename :: "string \<Rightarrow> string \<Rightarrow> string"
  existsSync :: "string \<Rightarrow> bool"
  readdirSync :: "string \<Rightarrow> error + Dirent list"
  readFileSync :: "string \<Rightarrow> error + string"
  JSON_parse :: "string \<Rightarrow> error + json"
  Date_now :: nat

section \<open>SkillsManager\<close>

datatype SkillLocation = User | Project | Managed

text \<open>The string a location is at run time.\<close>

fun locationTag :: "SkillLocation \<Rightarrow> string" where
  "locationTag User = ''user''"
| "locationTag Project = ''project''"
| "locationTag Managed = ''managed''"

text \<open>
  The interface declares \<^verbatim>\<open>description?: string\<close>, but the loader stores whatever
  \<^verbatim>\<open>skill.json\<close> holds under that key, so the field is a value of any kind.
\<close>

record Skill =
  name :: string
  location :: SkillLocation
  path :: string
  description :: jsval
  pluginName :: "string option"
  hasReadme :: bool
  hasPrompt :: bool

record SkillDetails = Skill +
  skillJson :: jsval
  readmeContent :: "string option"
  promptContent :: "string option"

record SkillsManager =
  cachedSkills :: "Skill list option"
  lastLoadTime :: nat

text \<open>
  The inner \<^verbatim>\<open>try\<close> block of \<^verbatim>\<open>loadSkillsFromDirectory\<close>: read and parse
  \<^verbatim>\<open>skill.json\<close> and build the entry.
\<close>

definition readSkill ::
  "Env \<Rightarrow> string \<Rightarrow> SkillLocation \<Rightarrow> string option \<Rightarrow> Dirent \<Rightarrow> error + Skill" where
  "readSkill env dirPath loc plugin entry =
     (let skillPath = path_join env [dirPath, d_name entry];
          skillJsonPath = path_join env [skillPath, ''skill.json''];
          readmePath = path_join env [skillPath, ''README.md''];
          promptPath = path_join env [skillPath, ''prompt.md'']
      in case readFileSync env skillJsonPath of
           Inl e \<Rightarrow> Inl e
         | Inr skillJsonContent \<Rightarrow>
             (case JSON_parse env skillJsonContent of
                Inl e \<Rightarrow> Inl e
              | Inr parsed \<Rightarrow>
                  (case getDescription parsed of
                     Inl e \<Rightarrow> Inl e
                   | Inr d \<Rightarrow>
                       Inr \<lparr>name = d_name entry, location = loc, path = skillPath,
                            description = orUndefined d, pluginName = plugin,
                            hasReadme = existsSync env readmePath,
                            hasPrompt = existsSync env promptPath\<rparr>)))"

text \<open>
  The \<^verbatim>\<open>for\<close> loop over the entries; \<open>skills\<close> is the array being filled. An entry
  that is no directory or has no \<^verbatim>\<open>skill.json\<close> is passed over, and the inner
  \<^verbatim>\<open>catch\<close> logs a failed entry and goes on.
\<close>

fun skillsLoop ::
  "Env \<Rightarrow> string \<Rightarrow> SkillLocation \<Rightarrow> string option \<Rightarrow> Dirent list \<Rightarrow> Skill list \<Rightarrow> Skill list"
  where
  "skillsLoop env dirPath loc plugin [] skills = skills"
| "skillsLoop env dirPath loc plugin (entry # entries) skills =
     (if \<not> isDirectory entry then skillsLoop env dirPath loc plugin entries skills
      else if \<not> existsSync env
                 (path_join env [path_join env [dirPath, d_name entry], ''skill.json''])
      then skillsLoop env dirPath loc plugin entries skills
      else (case readSkill env dirPath loc plugin entry of
              Inr skill \<Rightarrow> skillsLoop env dirPath loc plugin entries (skills @ [skill])
            | Inl e \<Rightarrow> skillsLoop env dirPath loc plugin entries skills))"

text \<open>
  \<^verbatim>\<open>loadSkillsFromDirectory\<close>. The outer \<^verbatim>\<open>catch\<close> is reached by a throwing
  \<^verbatim>\<open>readdirSync\<close> only, when the array is still empty; it logs and the array is
  returned.
\<close>

definition loadSkillsFromDirectory ::
  "Env \<Rightarrow> string \<Rightarrow> SkillLocation \<Rightarrow> string option \<Rightarrow> error + Skill list" where
  "loadSkillsFromDirectory env dirPath loc plugin =
     (if \<not> existsSync env dirPath then Inr []
      else (case readdirSync env dirPath of
              Inl e \<Rightarrow> Inr []
            | Inr entries \<Rightarrow> Inr (skillsLoop env dirPath loc plugin entries [])))"

definition loadUserSkills :: "Env \<Rightarrow> error + Skill list" where
  "loadUserSkills env =
     (case os_homedir env of
        Inl e \<Rightarrow> Inl e
      | Inr homeDir \<Rightarrow>
          loadSkillsFromDirectory env (path_join env [homeDir, ''.claude'', ''skills''])
            User None)"

definition loadProjectSkills :: "Env \<Rightarrow> error + Skill list" where
  "loadProjectSkills env =
     (case process_cwd env of
        Inl e \<Rightarrow> Inl e
      | Inr cwd \<Rightarrow>
          loadSkillsFromDirectory env (path_join env [cwd, ''.claude'', ''skills''])
            Project None)"

text \<open>
  The loops of \<^verbatim>\<open>loadManagedSkills\<close>. A throw leaves both loops for the
  \<^verbatim>\<open>catch\<close>, which logs; the array filled so far is what the function returns, so
  the loops give the array together with the error, if one was thrown.
\<close>

fun pluginsLoop ::
  "Env \<Rightarrow> string \<Rightarrow> string list \<Rightarrow> Skill list \<Rightarrow> error option \<times> Skill list" where
  "pluginsLoop env pluginsDir [] skills = (None, skills)"
| "pluginsLoop env pluginsDir (plugin # plugins) skills =
     (if existsSync env (path_join env [path_join env [pluginsDir, plugin], ''skills''])
      then (case loadSkillsFromDirectory env
                   (path_join env [path_join env [pluginsDir, plugin], ''skills''])
                   Managed (Some plugin) of
              Inl e \<Rightarrow> (Some e, skills)
            | Inr pluginSkills \<Rightarrow> pluginsLoop env pluginsDir plugins (skills @ pluginSkills))
      else pluginsLoop env pluginsDir plugins skills)"

fun marketplacesLoop ::
  "Env \<Rightarrow> string \<Rightarrow> string list \<Rightarrow> Skill list \<Rightarrow> error option \<times> Skill list" where
  "marketplacesLoop env pluginsPath [] skills = (None, skills)"
| "marketplacesLoop env pluginsPath (marketplace # marketplaces) skills =
     (if \<not> existsSync env
             (path_join env [path_join env [pluginsPath, marketplace], ''plugins''])
      then marketplacesLoop env pluginsPath marketplaces skills
      else (case readdirSync env
                   (path_join env [path_join env [pluginsPath, marketplace], ''plugins'']) of
              Inl e \<Rightarrow> (Some e, skills)
            | Inr plugins \<Rightarrow>
                (case pluginsLoop env
                        (path_join env [path_join env [pluginsPath, marketplace], ''plugins''])
                        (map d_name plugins) skills of
                   (Some e, skills') \<Rightarrow> (Some e, skills')
                 | (None, skills') \<Rightarrow>
                     marketplacesLoop env pluginsPath marketplaces skills')))"

text \<open>
  \<^verbatim>\<open>loadManagedSkills\<close>: \<^verbatim>\<open>os.homedir()\<close> is called before the \<^verbatim>\<open>try\<close>, so its
  error leaves the function; everything else ends in \<^verbatim>\<open>return skills\<close>.
\<close>

definition loadManagedSkills :: "Env \<Rightarrow> error + Skill list" where
  "loadManagedSkills env =
     (case os_homedir env of
        Inl e \<Rightarrow> Inl e
      | Inr homeDir \<Rightarrow>
          (let pluginsPath = path_join env [homeDir, ''.claude'', ''plugins'', ''marketplaces'']
           in if \<not> existsSync env pluginsPath then Inr []
              else (case readdirSync env pluginsPath of
                      Inl e \<Rightarrow> Inr []
                    | Inr marketplaces \<Rightarrow>
                        Inr (snd (marketplacesLoop env pluginsPath
                                    (map d_name marketplaces) [])))))"

text \<open>The \<^verbatim>\<open>try\<close> block of \<^verbatim>\<open>loadSkills\<close>: the three scans, in this order.\<close>

definition scanSkills :: "Env \<Rightarrow> error + Skill list" where
  "scanSkills env =
     (case loadUserSkills env of
        Inl e \<Rightarrow> Inl e
      | Inr userSkills \<Rightarrow>
          (case loadProjectSkills env of
             Inl e \<Rightarrow> Inl e
           | Inr projectSkills \<Rightarrow>
               (case loadManagedSkills env of
                  Inl e \<Rightarrow> Inl e
                | Inr managedSkills \<Rightarrow> Inr (userSkills @ projectSkills @ managedSkills))))"

text \<open>
  \<^verbatim>\<open>loadSkills(forceReload)\<close>, as the result and the manager after the call. An array,
  also the empty one, is truthy: only \<^verbatim>\<open>null\<close> counts as no cache.
\<close>

definition loadSkills ::
  "Env \<Rightarrow> SkillsManager \<Rightarrow> bool \<Rightarrow> (error + Skill list) \<times> SkillsManager" where
  "loadSkills env this forceReload =
     (if cachedSkills this \<noteq> None \<and> \<not> forceReload
      then (Inr (the (cachedSkills this)), this)
      else (case scanSkills env of
              Inr skills \<Rightarrow>
                (Inr skills, this\<lparr>cachedSkills := Some skills, lastLoadTime := Date_now env\<rparr>)
            | Inl e \<Rightarrow> (Inr [], this\<lparr>cachedSkills := Some []\<rparr>)))"

text \<open>
  The part of \<^verbatim>\<open>getSkillDetails\<close> after the entry is found: a copy of the entry, and
  the three files that exist are read into it.
\<close>

definition readSkillDetails :: "Env \<Rightarrow> Skill \<Rightarrow> error + SkillDetails" where
  "readSkillDetails env skill =
     (let skillJsonPath = path_join env [path skill, ''skill.json''];
          readmePath = path_join env [path skill, ''README.md''];
          promptPath = path_join env [path skill, ''prompt.md''];
          details = Skill.extend skill
            \<lparr>skillJson = None, readmeContent = None, promptContent = None\<rparr>
      in case (if existsSync env skillJsonPath
               then (case readFileSync env skillJsonPath of
                       Inl e \<Rightarrow> Inl e
                     | Inr content \<Rightarrow>
                         (case JSON_parse env content of
                            Inl e \<Rightarrow> Inl e
                          | Inr parsed \<Rightarrow> Inr (details\<lparr>skillJson := Some parsed\<rparr>)))
               else Inr details) of
           Inl e \<Rightarrow> Inl e
         | Inr details1 \<Rightarrow>
             (case (if existsSync env readmePath
                    then (case readFileSync env readmePath of
                            Inl e \<Rightarrow> Inl e
                          | Inr content \<Rightarrow> Inr (details1\<lparr>readmeContent := Some content\<rparr>))
                    else Inr details1) of
                Inl e \<Rightarrow> Inl e
              | Inr details2 \<Rightarrow>
                  (if existsSync env promptPath
                   then (case readFileSync env promptPath of
                           Inl e \<Rightarrow> Inl e
                         | Inr content \<Rightarrow> Inr (details2\<lparr>promptContent := Some content\<rparr>))
                   else Inr details2)))"

text \<open>
  The callback of \<^verbatim>\<open>find\<close> in \<^verbatim>\<open>getSkillDetails\<close>: strict equality of the name
  and of the location with the arguments, whatever those are at run time.
\<close>

definition isSkill :: "jsval \<Rightarrow> jsval \<Rightarrow> Skill \<Rightarrow> bool" where
  "isSkill skillName loc s =
     (skillName = Some (JString (name s)) \<and> loc = Some (JString (locationTag (location s))))"

text \<open>
  \<^verbatim>\<open>getSkillDetails(skillName, location)\<close>: the whole body is in a \<^verbatim>\<open>try\<close> whose
  \<^verbatim>\<open>catch\<close> returns \<^verbatim>\<open>null\<close>.
\<close>

definition getSkillDetails ::
  "Env \<Rightarrow> SkillsManager \<Rightarrow> jsval \<Rightarrow> jsval \<Rightarrow> (error + SkillDetails option) \<times> SkillsManager"
  where
  "getSkillDetails env this skillName loc =
     (case loadSkills env this False of
        (Inl e, this') \<Rightarrow> (Inr None, this')
      | (Inr skills, this') \<Rightarrow>
          (case find (isSkill skillName loc) skills of
             None \<Rightarrow> (Inr None, this')
           | Some skill \<Rightarrow>
               (case readSkillDetails env skill of
                  Inl e \<Rightarrow> (Inr None, this')
                | Inr details \<Rightarrow> (Inr (Some details), this'))))"

text \<open>
  The callback of \<^verbatim>\<open>filter\<close> in \<^verbatim>\<open>searchSkills\<close>. The three tests are computed
  before they are combined, so a description that is no string throws also when the name
  matches.
\<close>

definition skillMatches :: "string \<Rightarrow> jsval \<Rightarrow> Skill \<Rightarrow> error + bool" where
  "skillMatches lowerQuery locationFilter skill =
     (if truthy locationFilter \<and> Some (JString (locationTag (location skill))) \<noteq> locationFilter
      then Inr False
      else (let matchesName = includesStr (toLowerCase (name skill)) lowerQuery in
            case optLowerIncludes (description skill) lowerQuery of
              Inl e \<Rightarrow> Inl e
            | Inr matchesDescription \<Rightarrow>
                (case optLowerIncludes (map_option JString (pluginName skill)) lowerQuery of
                   Inl e \<Rightarrow> Inl e
                 | Inr matchesPlugin \<Rightarrow>
                     Inr (matchesName \<or> matchesDescription \<or> matchesPlugin))))"

text \<open>\<^verbatim>\<open>searchSkills(query, locationFilter)\<close>; nothing in it catches.\<close>

definition searchSkills ::
  "Env \<Rightarrow> SkillsManager \<Rightarrow> jsval \<Rightarrow> jsval \<Rightarrow> (error + Skill list) \<times> SkillsManager" where
  "searchSkills env this query locationFilter =
     (case loadSkills env this False of
        (Inl e, this') \<Rightarrow> (Inl e, this')
      | (Inr skills, this') \<Rightarrow>
          (case lowerQueryOf query of
             Inl e \<Rightarrow> (Inl e, this')
           | Inr lowerQuery \<Rightarrow> (filterE (skillMatches lowerQuery locationFilter) skills, this')))"

definition clearCache :: "SkillsManager \<Rightarrow> SkillsManager" where
  "clearCache this = this\<lparr>cachedSkills := None, lastLoadTime := 0\<rparr>"

definition getCachedSkills :: "SkillsManager \<Rightarrow> Skill list" where
  "getCachedSkills this = (case cachedSkills this of None \<Rightarrow> [] | Some skills \<Rightarrow> skills)"

section \<open>AgentsManager\<close>

record Agent =
  name :: string
  path :: string
  description :: "string option"
  hasReadme :: bool

record AgentDetails = Agent +
  content :: "string option"
  readmeContent :: "string option"

record AgentsManager =
  cachedAgents :: "Agent list option"
  lastLoadTime :: nat

text \<open>
  The inner \<^verbatim>\<open>try\<close> block of \<^verbatim>\<open>loadAgentsFromDirectory\<close>: read the file,
  extract the description and build the entry.
\<close>

definition readAgent :: "Env \<Rightarrow> string \<Rightarrow> string \<Rightarrow> error + Agent" where
  "readAgent env dirPath file =
     (let agentPath = path_join env [dirPath, file];
          agentName = path_basename env file ''.md'';
          readmePath = path_join env [dirPath, agentName, ''README.md'']
      in case readFileSync env agentPath of
           Inl e \<Rightarrow> Inl e
         | Inr text \<Rightarrow>
             Inr \<lparr>name = agentName, path = agentPath,
                  description = extractDescription text,
                  hasReadme = existsSync env readmePath\<rparr>)"

text \<open>The \<^verbatim>\<open>for\<close> loop over the file names; \<open>agents\<close> is the array being filled.\<close>

fun agentsLoop :: "Env \<Rightarrow> string \<Rightarrow> string list \<Rightarrow> Agent list \<Rightarrow> Agent list" where
  "agentsLoop env dirPath [] agents = agents"
| "agentsLoop env dirPath (file # files) agents =
     (if \<not> endsWith file ''.md'' then agentsLoop env dirPath files agents
      else (case readAgent env dirPath file of
              Inr agent \<Rightarrow> agentsLoop env dirPath files (agents @ [agent])
            | Inl e \<Rightarrow> agentsLoop env dirPath files agents))"

text \<open>
  \<^verbatim>\<open>loadAgentsFromDirectory\<close>. The outer \<^verbatim>\<open>catch\<close> is reached by a throwing
  \<^verbatim>\<open>readdirSync\<close> only, when the array is still empty.
\<close>

definition loadAgentsFromDirectory :: "Env \<Rightarrow> string \<Rightarrow> error + Agent list" where
  "loadAgentsFromDirectory env dirPath =
     (if \<not> existsSync env dirPath then Inr []
      else (case readdirSync env dirPath of
              Inl e \<Rightarrow> Inr []
            | Inr files \<Rightarrow> Inr (agentsLoop env dirPath (map d_name files) [])))"

text \<open>The \<^verbatim>\<open>try\<close> block of \<^verbatim>\<open>loadAgents\<close>.\<close>

definition scanAgents :: "Env \<Rightarrow> error + Agent list" where
  "scanAgents env =
     (case os_homedir env of
        Inl e \<Rightarrow> Inl e
      | Inr homeDir \<Rightarrow>
          loadAgentsFromDirectory env (path_join env [homeDir, ''.claude'', ''agents'']))"

definition loadAgents ::
  "Env \<Rightarrow> AgentsManager \<Rightarrow> bool \<Rightarrow> (error + Agent list) \<times> AgentsManager" where
  "loadAgents env this forceReload =
     (if cachedAgents this \<noteq> None \<and> \<not> forceReload
      then (Inr (the (cachedAgents this)), this)
      else (case scanAgents env of
              Inr agents \<Rightarrow>
                (Inr agents,
                 this\<lparr>cachedAgents := Some agents, AgentsManager.lastLoadTime := Date_now env\<rparr>)
            | Inl e \<Rightarrow> (Inr [], this\<lparr>cachedAgents := Some []\<rparr>)))"

text \<open>
  The part of \<^verbatim>\<open>getAgentDetails\<close> after the entry is found; \<open>agentName\<close> is the
  argument of the call, which the README path is built from.
\<close>

definition readAgentDetails :: "Env \<Rightarrow> string \<Rightarrow> Agent \<Rightarrow> error + AgentDetails" where
  "readAgentDetails env agentName agent =
     (let details = Agent.extend agent \<lparr>content = None, readmeContent = None\<rparr>
      in case (if existsSync env (Agent.path agent)
               then (case readFileSync env (Agent.path agent) of
                       Inl e \<Rightarrow> Inl e
                     | Inr text \<Rightarrow> Inr (details\<lparr>content := Some text\<rparr>))
               else Inr details) of
           Inl e \<Rightarrow> Inl e
         | Inr details1 \<Rightarrow>
             (case os_homedir env of
                Inl e \<Rightarrow> Inl e
              | Inr homeDir \<Rightarrow>
                  (let readmePath =
                         path_join env [homeDir, ''.claude'', ''agents'', agentName, ''README.md'']
                   in if existsSync env readmePath
                      then (case readFileSync env readmePath of
                              Inl e \<Rightarrow> Inl e
                            | Inr text \<Rightarrow>
                                Inr (details1\<lparr>AgentDetails.readmeContent := Some text\<rparr>))
                      else Inr details1)))"

text \<open>
  \<^verbatim>\<open>getAgentDetails(agentName)\<close>: the whole body is in a \<^verbatim>\<open>try\<close> whose
  \<^verbatim>\<open>catch\<close> returns \<^verbatim>\<open>null\<close>. The callback of \<^verbatim>\<open>find\<close> is strict
  equality with the argument, which only a string can satisfy.
\<close>

definition getAgentDetails ::
  "Env \<Rightarrow> AgentsManager \<Rightarrow> jsval \<Rightarrow> (error + AgentDetails option) \<times> AgentsManager" where
  "getAgentDetails env this agentName =
     (case loadAgents env this False of
        (Inl e, this') \<Rightarrow> (Inr None, this')
      | (Inr agents, this') \<Rightarrow>
          (case find (\<lambda>a. agentName = Some (JString (Agent.name a))) agents of
             None \<Rightarrow> (Inr None, this')
           | Some agent \<Rightarrow>
               (case readAgentDetails env (Agent.name agent) agent of
                  Inl e \<Rightarrow> (Inr None, this')
                | Inr details \<Rightarrow> (Inr (Some details), this'))))"

text \<open>The callback of \<^verbatim>\<open>filter\<close> in \<^verbatim>\<open>searchAgents\<close>.\<close>

definition agentMatches :: "string \<Rightarrow> Agent \<Rightarrow> bool" where
  "agentMatches lowerQuery agent =
     (includesStr (toLowerCase (Agent.name agent)) lowerQuery \<or>
      (case Agent.description agent of
         None \<Rightarrow> False
       | Some d \<Rightarrow> includesStr (toLowerCase d) lowerQuery))"

definition searchAgents ::
  "Env \<Rightarrow> AgentsManager \<Rightarrow> jsval \<Rightarrow> (error + Agent list) \<times> AgentsManager" where
  "searchAgents env this query =
     (case loadAgents env this False of
        (Inl e, this') \<Rightarrow> (Inl e, this')
      | (Inr agents, this') \<Rightarrow>
          (case lowerQueryOf query of
             Inl e \<Rightarrow> (Inl e, this')
           | Inr lowerQuery \<Rightarrow> (Inr (filter (agentMatches lowerQuery) agents), this')))"

section \<open>CommandsManager\<close>

record Command =
  name :: string
  path :: string
  description :: "string option"
  usage :: "string option"
  hasReadme :: bool

record CommandDetails = Command +
  content :: "string option"
  readmeContent :: "string option"

record CommandsManager =
  cachedCommands :: "Command list option"
  lastLoadTime :: nat

text \<open>
  The inner \<^verbatim>\<open>try\<close> block of \<^verbatim>\<open>loadCommandsFromDirectory\<close>: read the file,
  extract the description and build the entry.
\<close>

definition readCommand :: "Env \<Rightarrow> string \<Rightarrow> string \<Rightarrow> error + Command" where
  "readCommand env dirPath file =
     (let commandPath = path_join env [dirPath, file];
          commandName = path_basename env file ''.md'';
          readmePath = path_join env [dirPath, commandName, ''README.md'']
      in case readFileSync env commandPath of
           Inl e \<Rightarrow> Inl e
         | Inr text \<Rightarrow>
             Inr \<lparr>name = commandName, path = commandPath,
                  description = extractDescription text,
                  usage = None,
                  hasReadme = existsSync env readmePath\<rparr>)"

text \<open>The \<^verbatim>\<open>for\<close> loop over the file names; \<open>commands\<close> is the array being filled.\<close>

fun commandsLoop :: "Env \<Rightarrow> string \<Rightarrow> string list \<Rightarrow> Command list \<Rightarrow> Command list" where
  "commandsLoop env dirPath [] commands = commands"
| "commandsLoop env dirPath (file # files) commands =
     (if \<not> endsWith file ''.md'' then commandsLoop env dirPath files commands
      else (case readCommand env dirPath file of
              Inr command \<Rightarrow> commandsLoop env dirPath files (commands @ [command])
            | Inl e \<Rightarrow> commandsLoop env dirPath files commands))"

text \<open>
  \<^verbatim>\<open>loadCommandsFromDirectory\<close>. The outer \<^verbatim>\<open>catch\<close> is reached by a throwing
  \<^verbatim>\<open>readdirSync\<close> only, when the array is still empty.
\<close>

definition loadCommandsFromDirectory :: "Env \<Rightarrow> string \<Rightarrow> error + Command list" where
  "loadCommandsFromDirectory env dirPath =
     (if \<not> existsSync env dirPath then Inr []
      else (case readdirSync env dirPath of
              Inl e \<Rightarrow> Inr []
            | Inr files \<Rightarrow> Inr (commandsLoop env dirPath (map d_name files) [])))"

text \<open>The \<^verbatim>\<open>try\<close> block of \<^verbatim>\<open>loadCommands\<close>.\<close>

definition scanCommands :: "Env \<Rightarrow> error + Command list" where
  "scanCommands env =
     (case os_homedir env of
        Inl e \<Rightarrow> Inl e
      | Inr homeDir \<Rightarrow>
          loadCommandsFromDirectory env (path_join env [homeDir, ''.claude'', ''commands'']))"

definition loadCommands ::
  "Env \<Rightarrow> CommandsManager \<Rightarrow> bool \<Rightarrow> (error + Command list) \<times> CommandsManager" where
  "loadCommands env this forceReload =
     (if cachedCommands this \<noteq> None \<and> \<not> forceReload
      then (Inr (the (cachedCommands this)), this)
      else (case scanCommands env of
              Inr commands \<Rightarrow>
                (Inr commands,
                 this\<lparr>cachedCommands := Some commands, CommandsManager.lastLoadTime := Date_now env\<rparr>)
            | Inl e \<Rightarrow> (Inr [], this\<lparr>cachedCommands := Some []\<rparr>)))"

text \<open>
  The part of \<^verbatim>\<open>getCommandDetails\<close> after the entry is found; \<open>commandName\<close> is the
  argument of the call, which the README path is built from.
\<close>

definition readCommandDetails :: "Env \<Rightarrow> string \<Rightarrow> Command \<Rightarrow> error + CommandDetails" where
  "readCommandDetails env commandName command =
     (let details = Command.extend command \<lparr>content = None, readmeContent = None\<rparr>
      in case (if existsSync env (Command.path command)
               then (case readFileSync env (Command.path command) of
                       Inl e \<Rightarrow> Inl e
                     | Inr text \<Rightarrow> Inr (details\<lparr>content := Some text\<rparr>))
               else Inr details) of
           Inl e \<Rightarrow> Inl e
         | Inr details1 \<Rightarrow>
             (case os_homedir env of
                Inl e \<Rightarrow> Inl e
              | Inr homeDir \<Rightarrow>
                  (let readmePath =
                         path_join env [homeDir, ''.claude'', ''commands'', commandName, ''README.md'']
                   in if existsSync env readmePath
                      then (case readFileSync env readmePath of
                              Inl e \<Rightarrow> Inl e
                            | Inr text \<Rightarrow>
                                Inr (details1\<lparr>CommandDetails.readmeContent := Some text\<rparr>))
                      else Inr details1)))"

text \<open>
  \<^verbatim>\<open>getCommandDetails(commandName)\<close>: the whole body is in a \<^verbatim>\<open>try\<close> whose
  \<^verbatim>\<open>catch\<close> returns \<^verbatim>\<open>null\<close>. The callback of \<^verbatim>\<open>find\<close> is strict
  equality with the argument, which only a string can satisfy.
\<close>

definition getCommandDetails ::
  "Env \<Rightarrow> CommandsManager \<Rightarrow> jsval \<Rightarrow> (error + CommandDetails option) \<times> CommandsManager" where
  "getCommandDetails env this commandName =
     (case loadCommands env this False of
        (Inl e, this') \<Rightarrow> (Inr None, this')
      | (Inr commands, this') \<Rightarrow>
          (case find (\<lambda>a. commandName = Some (JString (Command.name a))) commands of
             None \<Rightarrow> (Inr None, this')
           | Some command \<Rightarrow>
               (case readCommandDetails env (Command.name command) command of
                  Inl e \<Rightarrow> (Inr None, this')
                | Inr details \<Rightarrow> (Inr (Some details), this'))))"

text \<open>The callback of \<^verbatim>\<open>filter\<close> in \<^verbatim>\<open>searchCommands\<close>.\<close>

definition commandMatches :: "string \<Rightarrow> Command \<Rightarrow> bool" where
  "commandMatches lowerQuery command =
     (includesStr (toLowerCase (Command.name command)) lowerQuery \<or>
      (case Command.description command of
         None \<Rightarrow> False
       | Some d \<Rightarrow> includesStr (toLowerCase d) lowerQuery))"

definition searchCommands ::
  "Env \<Rightarrow> CommandsManager \<Rightarrow> jsval \<Rightarrow> (error + Command list) \<times> CommandsManager" where
  "searchCommands env this query =
     (case loadCommands env this False of
        (Inl e, this') \<Rightarrow> (Inl e, this')
      | (Inr commands, this') \<Rightarrow>
          (case lowerQueryOf query of
             Inl e \<Rightarrow> (Inl e, this')
           | Inr lowerQuery \<Rightarrow> (Inr (filter (commandMatches lowerQuery) commands), this')))"

section \<open>ManagementViewProvider\<close>


























section \<open>The operations in the words of the specification\<close>

text \<open>
  The search as the specification words it, for comparing it with \<open>searchSkills\<close>:
  entries of another location than the filter, when one is given, are excluded; of the
  rest, those are kept of which the name, the description when present, or the name of
  the owning plugin when present contains the lower-cased query, case-insensitively.
\<close>

definition spec_contains :: "string \<Rightarrow> string \<Rightarrow> bool" where
  "spec_contains field query = includesStr (toLowerCase field) (toLowerCase query)"

definition spec_matches :: "string \<Rightarrow> Skill \<Rightarrow> bool" where
  "spec_matches query s =
     (spec_contains (Skill.name s) query
      \<or> (case Skill.description s of
            Some (JString d) \<Rightarrow> spec_contains d query
          | _ \<Rightarrow> False)
      \<or> (case pluginName s of
            Some p \<Rightarrow> spec_contains p query
          | None \<Rightarrow> False))"

definition spec_search :: "Skill list \<Rightarrow> string \<Rightarrow> SkillLocation option \<Rightarrow> Skill list" where
  "spec_search skills query locationFilter =
     filter (spec_matches query)
       (filter (\<lambda>s. case locationFilter of
                       None \<Rightarrow> True
                     | Some l \<Rightarrow> Skill.location s = l) skills)"

text \<open>The location filter as the argument \<^verbatim>\<open>searchSkills\<close> gets at run time.\<close>

definition filterArg :: "SkillLocation option \<Rightarrow> jsval" where
  "filterArg locationFilter = map_option (\<lambda>l. JString (locationTag l)) locationFilter"

text \<open>
  The description heuristic speaks of lines and of the remainder of a line. \<open>splitLines\<close>
  cuts a text at its line feeds, \<open>afterKey\<close> is what follows the first occurrence of a
  key in a line, and \<open>spec_remainders\<close> lists, for every line that holds the key, the
  trimmed remainder of that line.
\<close>

fun splitLines :: "string \<Rightarrow> string list" where
  "splitLines [] = [[]]"
| "splitLines (c # cs) =
     (if c = CHR 0x0A then [] # splitLines cs
      else (case splitLines cs of
              [] \<Rightarrow> [[c]]
            | l # ls \<Rightarrow> (c # l) # ls))"

fun afterKey :: "string \<Rightarrow> string \<Rightarrow> string option" where
  "afterKey key [] = (if key = [] then Some [] else None)"
| "afterKey key (c # cs) =
     (if prefix key (c # cs) then Some (drop (length key) (c # cs)) else afterKey key cs)"

definition spec_remainders :: "string \<Rightarrow> string \<Rightarrow> string list" where
  "spec_remainders key text = map trim (List.map_filter (afterKey key) (splitLines text))"

section \<open>A concrete platform\<close>

text \<open>
  A POSIX machine with home directory \<^verbatim>\<open>/home/u\<close> and working directory
  \<^verbatim>\<open>/work\<close>, for evaluating the services. \<open>posixJoin\<close> is \<^verbatim>\<open>path.join\<close> on
  segments that need no normalising, \<open>posixBasename\<close> is \<^verbatim>\<open>path.basename\<close> on a
  name without separators, and \<open>demoParse\<close> is \<^verbatim>\<open>JSON.parse\<close> on the texts
  the files hold.
\<close>

fun posixJoin :: "string list \<Rightarrow> string" where
  "posixJoin [] = ''.''"
| "posixJoin [s] = s"
| "posixJoin (s # t # ss) = s @ ''/'' @ posixJoin (t # ss)"

definition posixBasename :: "string \<Rightarrow> string \<Rightarrow> string" where
  "posixBasename file ext =
     (if file = ext then []
      else if suffix ext file then take (length file - length ext) file
      else file)"

definition dirEntry :: "string \<Rightarrow> Dirent" where
  "dirEntry n = \<lparr>d_name = n, isDirectory = True\<rparr>"

definition fileEntry :: "string \<Rightarrow> Dirent" where
  "fileEntry n = \<lparr>d_name = n, isDirectory = False\<rparr>"

definition demoDirs :: "(string \<times> Dirent list) list" where
  "demoDirs =
     [(''/home/u/.claude/skills'', [dirEntry ''foo'', dirEntry ''nojson'', dirEntry ''broken'', fileEntry ''notes.txt'']),
      (''/home/u/.claude/skills/foo'', [fileEntry ''skill.json'']),
      (''/home/u/.claude/skills/nojson'', [fileEntry ''README.md'', fileEntry ''prompt.md'']),
      (''/home/u/.claude/skills/broken'', [fileEntry ''skill.json'']),
      (''/work/.claude/skills'', [dirEntry ''bar'']),
      (''/work/.claude/skills/bar'', [fileEntry ''skill.json'', fileEntry ''README.md'']),
      (''/home/u/.claude/plugins/marketplaces'', [dirEntry ''m1'']),
      (''/home/u/.claude/plugins/marketplaces/m1/plugins'', [dirEntry ''p1'']),
      (''/home/u/.claude/plugins/marketplaces/m1/plugins/p1/skills'', [dirEntry ''baz'']),
      (''/home/u/.claude/plugins/marketplaces/m1/plugins/p1/skills/baz'', [fileEntry ''skill.json'']),
      (''/home/u/.claude/agents'', [fileEntry ''helper.md'', fileEntry ''notes.txt'', dirEntry ''locked.md'']),
      (''/home/u/.claude/agents/locked.md'', []),
      (''/home/u/.claude/commands'', [dirEntry ''old.md'', fileEntry ''build.md'']),
      (''/home/u/.claude/commands/old.md'', [])]"

text \<open>Three descriptor texts; every text of this machine but them and \<^verbatim>\<open>{}\<close>
  is no JSON.\<close>

definition descriptorFoo :: string where
  \<open>descriptorFoo = ''{"description":"does foo"}''\<close>

definition descriptorBaz :: string where
  \<open>descriptorBaz = ''{"description":"Managed BAZ"}''\<close>

definition descriptorNumeric :: string where
  \<open>descriptorNumeric = ''{"description":42}''\<close>

text \<open>The files; \<open>fooJson\<close> is the text of the skill descriptor of \<^verbatim>\<open>foo\<close>.\<close>

definition demoFiles :: "string \<Rightarrow> (string \<times> string) list" where
  "demoFiles fooJson =
     [(''/home/u/.claude/skills/foo/skill.json'', fooJson),
      (''/home/u/.claude/skills/nojson/README.md'', ''# nojson''),
      (''/home/u/.claude/skills/nojson/prompt.md'', ''prompt''),
      (''/home/u/.claude/skills/broken/skill.json'', ''{oops''),
      (''/work/.claude/skills/bar/skill.json'', ''{}''),
      (''/work/.claude/skills/bar/README.md'', ''# bar''),
      (''/home/u/.claude/plugins/marketplaces/m1/plugins/p1/skills/baz/skill.json'',
         descriptorBaz),
      (''/home/u/.claude/agents/helper.md'',
         ''---\<newline>description: hello\<newline>---\<newline># Title''),
      (''/home/u/.claude/agents/notes.txt'', ''# not an agent''),
      (''/home/u/.claude/commands/build.md'', ''# Title Only'')]"

text \<open>\<^verbatim>\<open>JSON.parse\<close> on the texts of this machine.\<close>

definition demoParse :: "string \<Rightarrow> error + json" where
  "demoParse s =
     (if s = ''{}'' then Inr (JObject [])
      else if s = descriptorFoo
        then Inr (JObject [(''description'', JString ''does foo'')])
      else if s = descriptorBaz
        then Inr (JObject [(''description'', JString ''Managed BAZ'')])
      else if s = descriptorNumeric then Inr (JObject [(''description'', JNumber 42)])
      else Inl (JsError ''Unexpected token in JSON''))"

definition demoEnv :: "string \<Rightarrow> Env" where
  "demoEnv fooJson =
     \<lparr>os_homedir = Inr ''/home/u'',
      process_cwd = Inr ''/work'',
      path_join = posixJoin,
      path_basename = posixBasename,
      existsSync = (\<lambda>p. p \<in> set (map fst demoDirs) \<or> p \<in> set (map fst (demoFiles fooJson))),
      readdirSync = (\<lambda>p. case map_of demoDirs p of
                            Some entries \<Rightarrow> Inr entries
                          | None \<Rightarrow> Inl (JsError ''ENOENT: no such file or directory, scandir'')),
      readFileSync = (\<lambda>p. case map_of (demoFiles fooJson) p of
                             Some text \<Rightarrow> Inr text
                           | None \<Rightarrow> Inl (JsError ''EISDIR: illegal operation on a directory, read'')),
      JSON_parse = demoParse,
      Date_now = 1000\<rparr>"

text \<open>The same machine when the working directory has been removed under the process.\<close>

definition noCwdEnv :: Env where
  "noCwdEnv =
     (demoEnv descriptorFoo)
       \<lparr>process_cwd := Inl (JsError ''ENOENT: no such file or directory, uv_cwd'')\<rparr>"

text \<open>The same machine when the home directory cannot be determined.\<close>

definition noHomeEnv :: Env where
  "noHomeEnv =
     (demoEnv descriptorFoo)
       \<lparr>os_homedir := Inl (JsError ''ENOENT: no such file or directory, uv_os_homedir'')\<rparr>"

definition newSkillsManager :: SkillsManager where
  "newSkillsManager = \<lparr>cachedSkills = None, lastLoadTime = 0\<rparr>"

definition newAgentsManager :: AgentsManager where
  "newAgentsManager = \<lparr>cachedAgents = None, lastLoadTime = 0\<rparr>"

definition newCommandsManager :: CommandsManager where
  "newCommandsManager = \<lparr>cachedCommands = None, lastLoadTime = 0\<rparr>"




section \<open>The scans\<close>

subsection \<open>The loops\<close>

lemma skillsLoop_append:
  "skillsLoop env d l p (xs @ ys) acc = skillsLoop env d l p ys (skillsLoop env d l p xs acc)"
  by (induction xs arbitrary: acc) (auto split: sum.splits)

lemma agentsLoop_append:
  "agentsLoop env d (xs @ ys) acc = agentsLoop env d ys (agentsLoop env d xs acc)"
  by (induction xs arbitrary: acc) (auto split: sum.splits)

lemma commandsLoop_append:
  "commandsLoop env d (xs @ ys) acc = commandsLoop env d ys (commandsLoop env d xs acc)"
  by (induction xs arbitrary: acc) (auto split: sum.splits)

lemma skillsLoop_skip:
  assumes "isDirectory entry"
    and "existsSync env (path_join env [path_join env [d, d_name entry], ''skill.json''])"
    and "readSkill env d l p entry = Inl e"
  shows "skillsLoop env d l p (before @ entry # after) []
    = skillsLoop env d l p (before @ after) []"
  using assms by (simp add: skillsLoop_append)

lemma agentsLoop_skip:
  assumes "endsWith f ''.md''" and "readAgent env d f = Inl e"
  shows "agentsLoop env d (before @ f # after) [] = agentsLoop env d (before @ after) []"
  using assms by (simp add: agentsLoop_append)

lemma commandsLoop_skip:
  assumes "endsWith f ''.md''" and "readCommand env d f = Inl e"
  shows "commandsLoop env d (before @ f # after) [] = commandsLoop env d (before @ after) []"
  using assms by (simp add: commandsLoop_append)

lemma readSkill_fields:
  assumes "readSkill env d l p entry = Inr s"
  shows "Skill.name s = d_name entry \<and> Skill.location s = l
    \<and> Skill.path s = path_join env [d, d_name entry] \<and> Skill.pluginName s = p"
  using assms by (auto simp: readSkill_def Let_def split: sum.splits)

text \<open>Where an entry of the filled array comes from.\<close>

lemma skillsLoop_origin:
  assumes "s \<in> set (skillsLoop env d l p es acc)"
  shows "s \<in> set acc \<or> (\<exists>entry \<in> set es. isDirectory entry
      \<and> existsSync env (path_join env [path_join env [d, d_name entry], ''skill.json''])
      \<and> readSkill env d l p entry = Inr s)"
  using assms
proof (induction es arbitrary: acc)
  case Nil
  then show ?case by simp
next
  case (Cons entry es)
  show ?case
  proof (cases "isDirectory entry \<and>
      existsSync env (path_join env [path_join env [d, d_name entry], ''skill.json''])")
    case False
    then have "s \<in> set (skillsLoop env d l p es acc)"
      using Cons.prems by (auto split: if_splits)
    from Cons.IH [OF this] show ?thesis by auto
  next
    case True
    show ?thesis
    proof (cases "readSkill env d l p entry")
      case (Inl e)
      then have "s \<in> set (skillsLoop env d l p es acc)"
        using Cons.prems True by simp
      from Cons.IH [OF this] show ?thesis by auto
    next
      case (Inr skill)
      then have "s \<in> set (skillsLoop env d l p es (acc @ [skill]))"
        using Cons.prems True by simp
      from Cons.IH [OF this] show ?thesis using Inr True by auto
    qed
  qed
qed

subsection \<open>One directory\<close>

lemma loadSkillsFromDirectory_total:
  "\<exists>skills. loadSkillsFromDirectory env d l p = Inr skills"
  by (simp add: loadSkillsFromDirectory_def split: sum.splits)

lemma loadSkillsFromDirectory_origin:
  assumes "loadSkillsFromDirectory env d l p = Inr skills" and "s \<in> set skills"
  shows "\<exists>entries entry. readdirSync env d = Inr entries \<and> entry \<in> set entries
      \<and> isDirectory entry
      \<and> existsSync env (path_join env [path_join env [d, d_name entry], ''skill.json''])
      \<and> readSkill env d l p entry = Inr s"
proof -
  from assms obtain entries where e: "readdirSync env d = Inr entries"
    and sk: "skills = skillsLoop env d l p entries []"
    by (auto simp: loadSkillsFromDirectory_def split: if_splits sum.splits)
  from assms(2) sk skillsLoop_origin [of s env d l p entries "[]"] e show ?thesis by auto
qed

lemma loadSkillsFromDirectory_location:
  assumes "loadSkillsFromDirectory env d l p = Inr skills" and "s \<in> set skills"
  shows "Skill.location s = l"
  using loadSkillsFromDirectory_origin [OF assms] readSkill_fields by blast

lemma loadSkillsFromDirectory_descriptor:
  assumes "loadSkillsFromDirectory env d l p = Inr skills" and "s \<in> set skills"
  shows "existsSync env (path_join env [Skill.path s, ''skill.json''])"
proof -
  from loadSkillsFromDirectory_origin [OF assms] obtain entry where
    "existsSync env (path_join env [path_join env [d, d_name entry], ''skill.json''])"
    and "readSkill env d l p entry = Inr s" by blast
  then show ?thesis using readSkill_fields by metis
qed

subsection \<open>The managed locations\<close>

text \<open>
  A property that every entry of every scanned directory has is a property of all the
  entries the two loops collect.
\<close>

lemma pluginsLoop_invariant:
  assumes "pluginsLoop env pd ps acc = (r, skills)"
    and "\<forall>s \<in> set acc. P s"
    and "\<And>dp pl found s.
           loadSkillsFromDirectory env dp Managed (Some pl) = Inr found \<Longrightarrow> s \<in> set found \<Longrightarrow> P s"
  shows "\<forall>s \<in> set skills. P s"
  using assms(1,2)
proof (induction ps arbitrary: acc)
  case Nil
  then show ?case by simp
next
  case (Cons plugin ps)
  let ?sd = "path_join env [path_join env [pd, plugin], ''skills'']"
  show ?case
  proof (cases "existsSync env ?sd")
    case False
    then have "pluginsLoop env pd ps acc = (r, skills)" using Cons.prems(1) by simp
    from Cons.IH [OF this Cons.prems(2)] show ?thesis .
  next
    case True
    obtain found where f: "loadSkillsFromDirectory env ?sd Managed (Some plugin) = Inr found"
      using loadSkillsFromDirectory_total by blast
    then have step: "pluginsLoop env pd ps (acc @ found) = (r, skills)"
      using Cons.prems(1) True by simp
    have "\<forall>s \<in> set (acc @ found). P s"
      using Cons.prems(2) assms(3) [OF f] by auto
    from Cons.IH [OF step this] show ?thesis .
  qed
qed

lemma marketplacesLoop_invariant:
  assumes "marketplacesLoop env pp ms acc = (r, skills)"
    and "\<forall>s \<in> set acc. P s"
    and "\<And>dp pl found s.
           loadSkillsFromDirectory env dp Managed (Some pl) = Inr found \<Longrightarrow> s \<in> set found \<Longrightarrow> P s"
  shows "\<forall>s \<in> set skills. P s"
  using assms(1,2)
proof (induction ms arbitrary: acc)
  case Nil
  then show ?case by simp
next
  case (Cons m ms)
  let ?pd = "path_join env [path_join env [pp, m], ''plugins'']"
  show ?case
  proof (cases "existsSync env ?pd")
    case False
    then have "marketplacesLoop env pp ms acc = (r, skills)" using Cons.prems(1) by simp
    from Cons.IH [OF this Cons.prems(2)] show ?thesis .
  next
    case True
    show ?thesis
    proof (cases "readdirSync env ?pd")
      case (Inl e)
      then have "skills = acc" using Cons.prems(1) True by simp
      then show ?thesis using Cons.prems(2) by simp
    next
      case (Inr plugins)
      obtain r' skills' where
        pl: "pluginsLoop env ?pd (map d_name plugins) acc = (r', skills')"
        by (cases "pluginsLoop env ?pd (map d_name plugins) acc") blast
      have inv: "\<forall>s \<in> set skills'. P s"
        by (rule pluginsLoop_invariant [OF pl Cons.prems(2)]) (rule assms(3))
      show ?thesis
      proof (cases r')
        case None
        then have "marketplacesLoop env pp ms skills' = (r, skills)"
          using Cons.prems(1) True Inr pl by simp
        from Cons.IH [OF this inv] show ?thesis .
      next
        case (Some e)
        then have "skills = skills'" using Cons.prems(1) True Inr pl by simp
        then show ?thesis using inv by simp
      qed
    qed
  qed
qed

lemma loadManagedSkills_invariant:
  assumes "loadManagedSkills env = Inr skills" and "s \<in> set skills"
    and "\<And>dp pl found s.
           loadSkillsFromDirectory env dp Managed (Some pl) = Inr found \<Longrightarrow> s \<in> set found \<Longrightarrow> P s"
  shows "P s"
proof -
  from assms(1) obtain homeDir where h: "os_homedir env = Inr homeDir"
    by (auto simp: loadManagedSkills_def split: sum.splits)
  let ?pp = "path_join env [homeDir, ''.claude'', ''plugins'', ''marketplaces'']"
  show ?thesis
  proof (cases "existsSync env ?pp")
    case False
    then have "skills = []" using assms(1) h by (simp add: loadManagedSkills_def)
    then show ?thesis using assms(2) by simp
  next
    case True
    show ?thesis
    proof (cases "readdirSync env ?pp")
      case (Inl e)
      then have "skills = []" using assms(1) h True by (simp add: loadManagedSkills_def)
      then show ?thesis using assms(2) by simp
    next
      case (Inr ms)
      then have sk: "skills = snd (marketplacesLoop env ?pp (map d_name ms) [])"
        using assms(1) h True by (simp add: loadManagedSkills_def)
      obtain r where m: "marketplacesLoop env ?pp (map d_name ms) [] = (r, skills)"
        using sk by (cases "marketplacesLoop env ?pp (map d_name ms) []") simp
      have "\<forall>s \<in> set skills. P s"
        by (rule marketplacesLoop_invariant [OF m]) (simp, rule assms(3))
      then show ?thesis using assms(2) by simp
    qed
  qed
qed

lemma loadManagedSkills_total:
  "os_homedir env = Inr homeDir \<Longrightarrow> \<exists>skills. loadManagedSkills env = Inr skills"
  by (simp add: loadManagedSkills_def Let_def split: sum.splits)

lemma loadManagedSkills_location:
  assumes "loadManagedSkills env = Inr skills" and "s \<in> set skills"
  shows "Skill.location s = Managed"
  using loadManagedSkills_invariant [OF assms, of "\<lambda>s. Skill.location s = Managed"]
    loadSkillsFromDirectory_location by blast

lemma loadManagedSkills_descriptor:
  assumes "loadManagedSkills env = Inr skills" and "s \<in> set skills"
  shows "existsSync env (path_join env [Skill.path s, ''skill.json''])"
  using loadManagedSkills_invariant [OF assms,
      of "\<lambda>s. existsSync env (path_join env [Skill.path s, ''skill.json''])"]
    loadSkillsFromDirectory_descriptor by blast

subsection \<open>The three locations together\<close>

lemma loadUserSkills_location:
  "loadUserSkills env = Inr skills \<Longrightarrow> s \<in> set skills \<Longrightarrow> Skill.location s = User"
  by (auto simp: loadUserSkills_def split: sum.splits dest: loadSkillsFromDirectory_location)

lemma loadProjectSkills_location:
  "loadProjectSkills env = Inr skills \<Longrightarrow> s \<in> set skills \<Longrightarrow> Skill.location s = Project"
  by (auto simp: loadProjectSkills_def split: sum.splits dest: loadSkillsFromDirectory_location)

lemma scanSkills_blocks:
  assumes "scanSkills env = Inr skills"
  shows "\<exists>us ps ms. loadUserSkills env = Inr us \<and> loadProjectSkills env = Inr ps
     \<and> loadManagedSkills env = Inr ms \<and> skills = us @ ps @ ms"
  using assms by (auto simp: scanSkills_def split: sum.splits)

lemma scanSkills_descriptor:
  assumes "scanSkills env = Inr skills" and "s \<in> set skills"
  shows "existsSync env (path_join env [Skill.path s, ''skill.json''])"
proof -
  from scanSkills_blocks [OF assms(1)] obtain us ps ms where
    b: "loadUserSkills env = Inr us" "loadProjectSkills env = Inr ps"
       "loadManagedSkills env = Inr ms" "skills = us @ ps @ ms" by blast
  from assms(2) b(4) consider "s \<in> set us" | "s \<in> set ps" | "s \<in> set ms" by auto
  then show ?thesis
  proof cases
    case 1
    with b(1) show ?thesis
      by (auto simp: loadUserSkills_def split: sum.splits
          dest: loadSkillsFromDirectory_descriptor)
  next
    case 2
    with b(2) show ?thesis
      by (auto simp: loadProjectSkills_def split: sum.splits
          dest: loadSkillsFromDirectory_descriptor)
  next
    case 3
    then show ?thesis by (rule loadManagedSkills_descriptor [OF b(3)])
  qed
qed

lemma loadSkills_force:
  "loadSkills env this True =
     (case scanSkills env of
        Inr skills \<Rightarrow>
          (Inr skills,
           this\<lparr>cachedSkills := Some skills, SkillsManager.lastLoadTime := Date_now env\<rparr>)
      | Inl e \<Rightarrow> (Inr [], this\<lparr>cachedSkills := Some []\<rparr>))"
  by (simp add: loadSkills_def)

lemma loadSkills_cached:
  "cachedSkills this = Some skills \<Longrightarrow> loadSkills env this False = (Inr skills, this)"
  by (simp add: loadSkills_def)

lemma loadSkills_total: "\<exists>skills. fst (loadSkills env this force) = Inr skills"
  by (simp add: loadSkills_def split: sum.splits)

lemma loadAgents_total: "\<exists>agents. fst (loadAgents env this force) = Inr agents"
  by (simp add: loadAgents_def split: sum.splits)

lemma loadCommands_total: "\<exists>commands. fst (loadCommands env this force) = Inr commands"
  by (simp add: loadCommands_def split: sum.splits)

section \<open>Claims about loading\<close>

text \<open>
  C1, as the code has it. When \<^verbatim>\<open>os.homedir()\<close> and \<^verbatim>\<open>process.cwd()\<close> return, a
  forced load scans the user directory, then the project directory, then the managed
  directories, and returns the three results joined in this order. When one of the two
  calls throws, the outer \<^verbatim>\<open>catch\<close> makes the load return the empty array. In both
  cases the array returned is a block of user entries, then a block of project entries,
  then a block of managed entries, whatever order the directory listings have.
\<close>

theorem forced_load_order:
  "(os_homedir env = Inr homeDir \<and> process_cwd env = Inr cwd \<longrightarrow>
      (\<exists>us ps ms.
         loadSkillsFromDirectory env (path_join env [homeDir, ''.claude'', ''skills'']) User None
           = Inr us
       \<and> loadSkillsFromDirectory env (path_join env [cwd, ''.claude'', ''skills'']) Project None
           = Inr ps
       \<and> loadManagedSkills env = Inr ms
       \<and> fst (loadSkills env this True) = Inr (us @ ps @ ms)))
   \<and> (os_homedir env = Inl e \<or> process_cwd env = Inl e \<longrightarrow>
        fst (loadSkills env this True) = Inr [])
   \<and> (\<exists>us ps ms.
         fst (loadSkills env this True) = Inr (us @ ps @ ms)
       \<and> list_all (\<lambda>s. Skill.location s = User) us
       \<and> list_all (\<lambda>s. Skill.location s = Project) ps
       \<and> list_all (\<lambda>s. Skill.location s = Managed) ms)"
proof (intro conjI impI)
  assume a: "os_homedir env = Inr homeDir \<and> process_cwd env = Inr cwd"
  obtain us where us: "loadSkillsFromDirectory env
      (path_join env [homeDir, ''.claude'', ''skills'']) User None = Inr us"
    using loadSkillsFromDirectory_total by blast
  obtain ps where ps: "loadSkillsFromDirectory env
      (path_join env [cwd, ''.claude'', ''skills'']) Project None = Inr ps"
    using loadSkillsFromDirectory_total by blast
  obtain ms where ms: "loadManagedSkills env = Inr ms"
    using loadManagedSkills_total a by blast
  have "scanSkills env = Inr (us @ ps @ ms)"
    using a us ps ms by (simp add: scanSkills_def loadUserSkills_def loadProjectSkills_def)
  then have "fst (loadSkills env this True) = Inr (us @ ps @ ms)"
    by (simp add: loadSkills_force)
  with us ps ms show "\<exists>us ps ms.
         loadSkillsFromDirectory env (path_join env [homeDir, ''.claude'', ''skills'']) User None
           = Inr us
       \<and> loadSkillsFromDirectory env (path_join env [cwd, ''.claude'', ''skills'']) Project None
           = Inr ps
       \<and> loadManagedSkills env = Inr ms
       \<and> fst (loadSkills env this True) = Inr (us @ ps @ ms)" by blast
next
  assume "os_homedir env = Inl e \<or> process_cwd env = Inl e"
  then have "\<exists>e'. scanSkills env = Inl e'"
    by (auto simp: scanSkills_def loadUserSkills_def loadProjectSkills_def split: sum.splits)
  then show "fst (loadSkills env this True) = Inr []"
    by (auto simp: loadSkills_force)
next
  show "\<exists>us ps ms.
         fst (loadSkills env this True) = Inr (us @ ps @ ms)
       \<and> list_all (\<lambda>s. Skill.location s = User) us
       \<and> list_all (\<lambda>s. Skill.location s = Project) ps
       \<and> list_all (\<lambda>s. Skill.location s = Managed) ms"
  proof (cases "scanSkills env")
    case (Inl e')
    then have "fst (loadSkills env this True) = Inr ([] @ [] @ [])
       \<and> list_all (\<lambda>s. Skill.location s = User) []
       \<and> list_all (\<lambda>s. Skill.location s = Project) []
       \<and> list_all (\<lambda>s. Skill.location s = Managed) []"
      by (simp add: loadSkills_force)
    then show ?thesis by blast
  next
    case (Inr skills)
    from scanSkills_blocks [OF this] obtain us ps ms where
      b: "loadUserSkills env = Inr us" "loadProjectSkills env = Inr ps"
         "loadManagedSkills env = Inr ms" "skills = us @ ps @ ms" by blast
    have "fst (loadSkills env this True) = Inr (us @ ps @ ms)"
      using Inr b(4) by (simp add: loadSkills_force)
    moreover have "list_all (\<lambda>s. Skill.location s = User) us"
      using loadUserSkills_location [OF b(1)] by (simp add: list_all_iff)
    moreover have "list_all (\<lambda>s. Skill.location s = Project) ps"
      using loadProjectSkills_location [OF b(2)] by (simp add: list_all_iff)
    moreover have "list_all (\<lambda>s. Skill.location s = Managed) ms"
      using loadManagedSkills_location [OF b(3)] by (simp add: list_all_iff)
    ultimately show ?thesis by blast
  qed
qed

text \<open>
  C1 as stated fails where the working directory has been removed: the user scan finds
  \<^verbatim>\<open>foo\<close>, the project scan throws, and the forced load returns the empty array.
\<close>

theorem forced_load_order_counterexample:
  "loadUserSkills noCwdEnv
     = Inr [\<lparr>Skill.name = ''foo'', location = User, path = ''/home/u/.claude/skills/foo'',
             description = Some (JString ''does foo''), pluginName = None,
             hasReadme = False, hasPrompt = False\<rparr>]
   \<and> loadProjectSkills noCwdEnv = Inl (JsError ''ENOENT: no such file or directory, uv_cwd'')
   \<and> fst (loadSkills noCwdEnv newSkillsManager True) = Inr []"
  by code_simp

theorem forced_load_order_witness:
  "os_homedir (demoEnv descriptorFoo) = Inr ''/home/u''
   \<and> process_cwd (demoEnv descriptorFoo) = Inr ''/work''
   \<and> process_cwd noCwdEnv = Inl (JsError ''ENOENT: no such file or directory, uv_cwd'')
   \<and> fst (loadSkills noCwdEnv newSkillsManager True) = Inr []
   \<and> (\<exists>us ps ms.
         loadSkillsFromDirectory (demoEnv descriptorFoo)
           (path_join (demoEnv descriptorFoo) [''/home/u'', ''.claude'', ''skills''])
           User None = Inr us
       \<and> loadSkillsFromDirectory (demoEnv descriptorFoo)
           (path_join (demoEnv descriptorFoo) [''/work'', ''.claude'', ''skills''])
           Project None = Inr ps
       \<and> loadManagedSkills (demoEnv descriptorFoo) = Inr ms
       \<and> fst (loadSkills (demoEnv descriptorFoo) newSkillsManager True)
           = Inr (us @ ps @ ms))"
proof -
  let ?env = "demoEnv descriptorFoo"
  have h: "os_homedir ?env = Inr ''/home/u'' \<and> process_cwd ?env = Inr ''/work''"
    by (simp add: demoEnv_def)
  have c: "process_cwd noCwdEnv = Inl (JsError ''ENOENT: no such file or directory, uv_cwd'')"
    by (simp add: noCwdEnv_def)
  from forced_load_order [of ?env "''/home/u''" "''/work''" newSkillsManager] h
    forced_load_order [of noCwdEnv _ _ newSkillsManager
      "JsError ''ENOENT: no such file or directory, uv_cwd''"] c
  show ?thesis by blast
qed

text \<open>The scenario of the specification: what a forced load returns on the machine.\<close>

lemma demo_forced_load:
  "fst (loadSkills (demoEnv descriptorFoo) newSkillsManager True)
     = Inr [\<lparr>Skill.name = ''foo'', location = User, path = ''/home/u/.claude/skills/foo'',
              description = Some (JString ''does foo''), pluginName = None,
              hasReadme = False, hasPrompt = False\<rparr>,
            \<lparr>Skill.name = ''bar'', location = Project, path = ''/work/.claude/skills/bar'',
              description = None, pluginName = None, hasReadme = True, hasPrompt = False\<rparr>,
            \<lparr>Skill.name = ''baz'', location = Managed,
              path = ''/home/u/.claude/plugins/marketplaces/m1/plugins/p1/skills/baz'',
              description = Some (JString ''Managed BAZ''), pluginName = Some ''p1'',
              hasReadme = False, hasPrompt = False\<rparr>]"
  by code_simp

text \<open>
  C2. A scan of a skills root never throws. Every entry it returns was built for a
  subdirectory of the root, carries that subdirectory's name and path, and has a
  \<^verbatim>\<open>skill.json\<close> directly inside; so a subdirectory without \<^verbatim>\<open>skill.json\<close> is the
  path of no returned entry, whatever else it contains. The same holds for every entry
  of a forced load.
\<close>

theorem skill_needs_descriptor:
  "(\<exists>found. loadSkillsFromDirectory env d l p = Inr found)
   \<and> (loadSkillsFromDirectory env d l p = Inr skills \<and> s \<in> set skills \<longrightarrow>
        (\<exists>entries entry. readdirSync env d = Inr entries \<and> entry \<in> set entries
           \<and> isDirectory entry
           \<and> Skill.name s = d_name entry
           \<and> Skill.path s = path_join env [d, d_name entry]
           \<and> existsSync env (path_join env [Skill.path s, ''skill.json''])))
   \<and> (loadSkillsFromDirectory env d l p = Inr skills
        \<and> \<not> existsSync env (path_join env [path_join env [d, n], ''skill.json'']) \<longrightarrow>
        \<not> (\<exists>s \<in> set skills. Skill.path s = path_join env [d, n]))
   \<and> (fst (loadSkills env this True) = Inr loaded \<and> s \<in> set loaded \<longrightarrow>
        existsSync env (path_join env [Skill.path s, ''skill.json'']))"
proof (intro conjI impI)
  show "\<exists>found. loadSkillsFromDirectory env d l p = Inr found"
    by (rule loadSkillsFromDirectory_total)
next
  assume a: "loadSkillsFromDirectory env d l p = Inr skills \<and> s \<in> set skills"
  then obtain entries entry where
    e: "readdirSync env d = Inr entries" "entry \<in> set entries" "isDirectory entry"
       "existsSync env (path_join env [path_join env [d, d_name entry], ''skill.json''])"
       "readSkill env d l p entry = Inr s"
    using loadSkillsFromDirectory_origin by blast
  from readSkill_fields [OF e(5)] e(1-4)
  show "\<exists>entries entry. readdirSync env d = Inr entries \<and> entry \<in> set entries
           \<and> isDirectory entry
           \<and> Skill.name s = d_name entry
           \<and> Skill.path s = path_join env [d, d_name entry]
           \<and> existsSync env (path_join env [Skill.path s, ''skill.json''])"
    by auto
next
  assume a: "loadSkillsFromDirectory env d l p = Inr skills
        \<and> \<not> existsSync env (path_join env [path_join env [d, n], ''skill.json''])"
  show "\<not> (\<exists>s \<in> set skills. Skill.path s = path_join env [d, n])"
  proof
    assume "\<exists>s \<in> set skills. Skill.path s = path_join env [d, n]"
    then obtain s' where s': "s' \<in> set skills" "Skill.path s' = path_join env [d, n]"
      by blast
    from loadSkillsFromDirectory_descriptor [of env d l p skills s'] a s'
    show False by simp
  qed
next
  assume a: "fst (loadSkills env this True) = Inr loaded \<and> s \<in> set loaded"
  show "existsSync env (path_join env [Skill.path s, ''skill.json''])"
  proof (cases "scanSkills env")
    case (Inl e)
    then show ?thesis using a by (auto simp: loadSkills_force)
  next
    case (Inr skills)
    then have "loaded = skills" using a by (auto simp: loadSkills_force)
    then show ?thesis using scanSkills_descriptor [OF Inr] a by simp
  qed
qed

theorem skill_needs_descriptor_witness:
  "loadSkillsFromDirectory (demoEnv ''{}'') ''/home/u/.claude/skills'' User None
     = Inr [\<lparr>Skill.name = ''foo'', location = User, path = ''/home/u/.claude/skills/foo'',
             description = None, pluginName = None, hasReadme = False, hasPrompt = False\<rparr>]
   \<and> existsSync (demoEnv ''{}'') ''/home/u/.claude/skills/nojson/README.md''
   \<and> existsSync (demoEnv ''{}'') ''/home/u/.claude/skills/nojson/prompt.md''
   \<and> \<not> existsSync (demoEnv ''{}'')
         (path_join (demoEnv ''{}'')
            [path_join (demoEnv ''{}'') [''/home/u/.claude/skills'', ''nojson''], ''skill.json''])
   \<and> \<not> (\<exists>s \<in> set [\<lparr>Skill.name = ''foo'', location = User,
                          path = ''/home/u/.claude/skills/foo'', description = None,
                          pluginName = None, hasReadme = False, hasPrompt = False\<rparr>].
           Skill.path s = path_join (demoEnv ''{}'') [''/home/u/.claude/skills'', ''nojson''])
   \<and> existsSync (demoEnv ''{}'')
        (path_join (demoEnv ''{}'') [''/home/u/.claude/skills/foo'', ''skill.json''])"
proof -
  let ?env = "demoEnv ''{}''"
  let ?foo = "\<lparr>Skill.name = ''foo'', location = User, path = ''/home/u/.claude/skills/foo'',
             description = None, pluginName = None, hasReadme = False, hasPrompt = False\<rparr>"
  have scan: "loadSkillsFromDirectory ?env ''/home/u/.claude/skills'' User None = Inr [?foo]"
    by code_simp
  have files: "existsSync ?env ''/home/u/.claude/skills/nojson/README.md''
     \<and> existsSync ?env ''/home/u/.claude/skills/nojson/prompt.md''"
    by code_simp
  have none: "\<not> existsSync ?env
      (path_join ?env [path_join ?env [''/home/u/.claude/skills'', ''nojson''], ''skill.json''])"
    by code_simp
  let ?loaded = "[?foo,
       \<lparr>Skill.name = ''bar'', location = Project, path = ''/work/.claude/skills/bar'',
         description = None, pluginName = None, hasReadme = True, hasPrompt = False\<rparr>,
       \<lparr>Skill.name = ''baz'', location = Managed,
         path = ''/home/u/.claude/plugins/marketplaces/m1/plugins/p1/skills/baz'',
         description = Some (JString ''Managed BAZ''), pluginName = Some ''p1'',
         hasReadme = False, hasPrompt = False\<rparr>]"
  have load: "fst (loadSkills ?env newSkillsManager True) = Inr ?loaded"
    by code_simp
  note t = skill_needs_descriptor [of ?env "''/home/u/.claude/skills''" User None "[?foo]" ?foo
      "''nojson''" newSkillsManager ?loaded]
  from t scan none load have
    "\<not> (\<exists>s \<in> set [?foo].
           Skill.path s = path_join ?env [''/home/u/.claude/skills'', ''nojson''])"
    and "existsSync ?env (path_join ?env [Skill.path ?foo, ''skill.json''])"
    by simp_all
  with scan files none show ?thesis by simp
qed

text \<open>What the loops return: for each candidate of the listing, in its order, the entry
  built for it when reading it succeeds, and nothing when it fails.\<close>

lemma skillsLoop_entries:
  "skillsLoop env d l p entries acc =
     acc @ concat (map (\<lambda>entry.
       if isDirectory entry
          \<and> existsSync env (path_join env [path_join env [d, d_name entry], ''skill.json''])
       then (case readSkill env d l p entry of Inr skill \<Rightarrow> [skill] | Inl e \<Rightarrow> [])
       else []) entries)"
  by (induction entries arbitrary: acc) (auto split: sum.splits)

lemma agentsLoop_entries:
  "agentsLoop env d files acc =
     acc @ concat (map (\<lambda>f.
       if endsWith f ''.md''
       then (case readAgent env d f of Inr agent \<Rightarrow> [agent] | Inl e \<Rightarrow> [])
       else []) files)"
  by (induction files arbitrary: acc) (auto split: sum.splits)

lemma commandsLoop_entries:
  "commandsLoop env d files acc =
     acc @ concat (map (\<lambda>f.
       if endsWith f ''.md''
       then (case readCommand env d f of Inr command \<Rightarrow> [command] | Inl e \<Rightarrow> [])
       else []) files)"
  by (induction files arbitrary: acc) (auto split: sum.splits)

text \<open>
  C5. A scan of one directory, for skills, agents or commands, always returns an array,
  never an error. For a directory that does not exist, or whose listing cannot be read,
  it is the empty array. Otherwise it holds, in the order of the listing, one entry for
  each candidate that is read and parsed without failure, built from that candidate's
  files, and nothing for a candidate whose read or parse throws: a failure leaves out
  that entry alone.
\<close>

theorem scan_isolates_failures:
  "(\<exists>skills. loadSkillsFromDirectory env d l p = Inr skills)
   \<and> (\<exists>agents. loadAgentsFromDirectory env d = Inr agents)
   \<and> (\<exists>commands. loadCommandsFromDirectory env d = Inr commands)
   \<and> (\<not> existsSync env d \<or> readdirSync env d = Inl e \<longrightarrow>
        loadSkillsFromDirectory env d l p = Inr []
      \<and> loadAgentsFromDirectory env d = Inr []
      \<and> loadCommandsFromDirectory env d = Inr [])
   \<and> (existsSync env d \<and> readdirSync env d = Inr entries \<longrightarrow>
        loadSkillsFromDirectory env d l p
          = Inr (concat (map (\<lambda>entry.
              if isDirectory entry
                 \<and> existsSync env
                      (path_join env [path_join env [d, d_name entry], ''skill.json''])
              then (case readFileSync env
                           (path_join env [path_join env [d, d_name entry], ''skill.json'']) of
                      Inl e \<Rightarrow> []
                    | Inr text \<Rightarrow>
                        (case JSON_parse env text of
                           Inl e \<Rightarrow> []
                         | Inr parsed \<Rightarrow>
                             (case getDescription parsed of
                                Inl e \<Rightarrow> []
                              | Inr v \<Rightarrow>
                                  [\<lparr>Skill.name = d_name entry, location = l,
                                    path = path_join env [d, d_name entry],
                                    description = orUndefined v, pluginName = p,
                                    hasReadme = existsSync env
                                      (path_join env
                                         [path_join env [d, d_name entry], ''README.md'']),
                                    hasPrompt = existsSync env
                                      (path_join env
                                         [path_join env [d, d_name entry], ''prompt.md''])\<rparr>])))
              else []) entries))
      \<and> loadAgentsFromDirectory env d
          = Inr (concat (map (\<lambda>f.
              if endsWith f ''.md''
              then (case readFileSync env (path_join env [d, f]) of
                      Inl e \<Rightarrow> []
                    | Inr text \<Rightarrow>
                        [\<lparr>Agent.name = path_basename env f ''.md'',
                          path = path_join env [d, f],
                          description = extractDescription text,
                          hasReadme = existsSync env
                            (path_join env [d, path_basename env f ''.md'', ''README.md''])\<rparr>])
              else []) (map d_name entries)))
      \<and> loadCommandsFromDirectory env d
          = Inr (concat (map (\<lambda>f.
              if endsWith f ''.md''
              then (case readFileSync env (path_join env [d, f]) of
                      Inl e \<Rightarrow> []
                    | Inr text \<Rightarrow>
                        [\<lparr>Command.name = path_basename env f ''.md'',
                          path = path_join env [d, f],
                          description = extractDescription text, usage = None,
                          hasReadme = existsSync env
                            (path_join env [d, path_basename env f ''.md'', ''README.md''])\<rparr>])
              else []) (map d_name entries))))"
proof (intro conjI impI)
  show "\<exists>skills. loadSkillsFromDirectory env d l p = Inr skills"
    by (rule loadSkillsFromDirectory_total)
  show "\<exists>agents. loadAgentsFromDirectory env d = Inr agents"
    by (simp add: loadAgentsFromDirectory_def split: sum.splits)
  show "\<exists>commands. loadCommandsFromDirectory env d = Inr commands"
    by (simp add: loadCommandsFromDirectory_def split: sum.splits)
next
  assume "\<not> existsSync env d \<or> readdirSync env d = Inl e"
  then show "loadSkillsFromDirectory env d l p = Inr []"
    and "loadAgentsFromDirectory env d = Inr []"
    and "loadCommandsFromDirectory env d = Inr []"
    by (auto simp: loadSkillsFromDirectory_def loadAgentsFromDirectory_def
        loadCommandsFromDirectory_def)
next
  assume a: "existsSync env d \<and> readdirSync env d = Inr entries"
  have one: "(case readSkill env d l p entry of Inr skill \<Rightarrow> [skill] | Inl e \<Rightarrow> [])
      = (case readFileSync env
                (path_join env [path_join env [d, d_name entry], ''skill.json'']) of
           Inl e \<Rightarrow> []
         | Inr text \<Rightarrow>
             (case JSON_parse env text of
                Inl e \<Rightarrow> []
              | Inr parsed \<Rightarrow>
                  (case getDescription parsed of
                     Inl e \<Rightarrow> []
                   | Inr v \<Rightarrow>
                       [\<lparr>Skill.name = d_name entry, location = l,
                         path = path_join env [d, d_name entry],
                         description = orUndefined v, pluginName = p,
                         hasReadme = existsSync env
                           (path_join env [path_join env [d, d_name entry], ''README.md'']),
                         hasPrompt = existsSync env
                           (path_join env
                              [path_join env [d, d_name entry], ''prompt.md''])\<rparr>])))"
    for entry
    by (simp add: readSkill_def Let_def split: sum.splits)
  show "loadSkillsFromDirectory env d l p
          = Inr (concat (map (\<lambda>entry.
              if isDirectory entry
                 \<and> existsSync env
                      (path_join env [path_join env [d, d_name entry], ''skill.json''])
              then (case readFileSync env
                           (path_join env [path_join env [d, d_name entry], ''skill.json'']) of
                      Inl e \<Rightarrow> []
                    | Inr text \<Rightarrow>
                        (case JSON_parse env text of
                           Inl e \<Rightarrow> []
                         | Inr parsed \<Rightarrow>
                             (case getDescription parsed of
                                Inl e \<Rightarrow> []
                              | Inr v \<Rightarrow>
                                  [\<lparr>Skill.name = d_name entry, location = l,
                                    path = path_join env [d, d_name entry],
                                    description = orUndefined v, pluginName = p,
                                    hasReadme = existsSync env
                                      (path_join env
                                         [path_join env [d, d_name entry], ''README.md'']),
                                    hasPrompt = existsSync env
                                      (path_join env
                                         [path_join env [d, d_name entry], ''prompt.md''])\<rparr>])))
              else []) entries))"
    using a by (simp add: loadSkillsFromDirectory_def skillsLoop_entries one cong: if_cong)
  have ag: "(case readAgent env d f of Inr agent \<Rightarrow> [agent] | Inl e \<Rightarrow> [])
      = (case readFileSync env (path_join env [d, f]) of
           Inl e \<Rightarrow> []
         | Inr text \<Rightarrow>
             [\<lparr>Agent.name = path_basename env f ''.md'', path = path_join env [d, f],
               description = extractDescription text,
               hasReadme = existsSync env
                 (path_join env [d, path_basename env f ''.md'', ''README.md''])\<rparr>])"
    for f
    by (simp add: readAgent_def Let_def split: sum.splits)
  show "loadAgentsFromDirectory env d
          = Inr (concat (map (\<lambda>f.
              if endsWith f ''.md''
              then (case readFileSync env (path_join env [d, f]) of
                      Inl e \<Rightarrow> []
                    | Inr text \<Rightarrow>
                        [\<lparr>Agent.name = path_basename env f ''.md'',
                          path = path_join env [d, f],
                          description = extractDescription text,
                          hasReadme = existsSync env
                            (path_join env [d, path_basename env f ''.md'', ''README.md''])\<rparr>])
              else []) (map d_name entries)))"
    using a by (simp add: loadAgentsFromDirectory_def agentsLoop_entries ag cong: if_cong)
  have co: "(case readCommand env d f of Inr command \<Rightarrow> [command] | Inl e \<Rightarrow> [])
      = (case readFileSync env (path_join env [d, f]) of
           Inl e \<Rightarrow> []
         | Inr text \<Rightarrow>
             [\<lparr>Command.name = path_basename env f ''.md'', path = path_join env [d, f],
               description = extractDescription text, usage = None,
               hasReadme = existsSync env
                 (path_join env [d, path_basename env f ''.md'', ''README.md''])\<rparr>])"
    for f
    by (simp add: readCommand_def Let_def split: sum.splits)
  show "loadCommandsFromDirectory env d
          = Inr (concat (map (\<lambda>f.
              if endsWith f ''.md''
              then (case readFileSync env (path_join env [d, f]) of
                      Inl e \<Rightarrow> []
                    | Inr text \<Rightarrow>
                        [\<lparr>Command.name = path_basename env f ''.md'',
                          path = path_join env [d, f],
                          description = extractDescription text, usage = None,
                          hasReadme = existsSync env
                            (path_join env [d, path_basename env f ''.md'', ''README.md''])\<rparr>])
              else []) (map d_name entries)))"
    using a by (simp add: loadCommandsFromDirectory_def commandsLoop_entries co cong: if_cong)
qed

theorem scan_isolates_failures_witness:
  "\<not> existsSync (demoEnv ''{}'') ''/home/u/.claude/nothing''
   \<and> loadSkillsFromDirectory (demoEnv ''{}'') ''/home/u/.claude/nothing'' User None = Inr []
   \<and> loadAgentsFromDirectory (demoEnv ''{}'') ''/home/u/.claude/nothing'' = Inr []
   \<and> loadCommandsFromDirectory (demoEnv ''{}'') ''/home/u/.claude/nothing'' = Inr []
   \<and> existsSync (demoEnv ''{}'') ''/home/u/.claude/agents/helper.md''
   \<and> readdirSync (demoEnv ''{}'') ''/home/u/.claude/agents/helper.md''
       = Inl (JsError ''ENOENT: no such file or directory, scandir'')
   \<and> loadSkillsFromDirectory (demoEnv ''{}'') ''/home/u/.claude/agents/helper.md'' User None
       = Inr []
   \<and> loadAgentsFromDirectory (demoEnv ''{}'') ''/home/u/.claude/agents/helper.md'' = Inr []
   \<and> loadCommandsFromDirectory (demoEnv ''{}'') ''/home/u/.claude/agents/helper.md'' = Inr []
   \<and> readdirSync (demoEnv ''{}'') ''/home/u/.claude/skills''
       = Inr [dirEntry ''foo'', dirEntry ''nojson'', dirEntry ''broken'', fileEntry ''notes.txt'']
   \<and> readSkill (demoEnv ''{}'') ''/home/u/.claude/skills'' User None (dirEntry ''broken'')
       = Inl (JsError ''Unexpected token in JSON'')
   \<and> loadSkillsFromDirectory (demoEnv ''{}'') ''/home/u/.claude/skills'' User None
       = Inr [\<lparr>Skill.name = ''foo'', location = User, path = ''/home/u/.claude/skills/foo'',
               description = None, pluginName = None, hasReadme = False, hasPrompt = False\<rparr>]
   \<and> readdirSync (demoEnv ''{}'') ''/home/u/.claude/agents''
       = Inr [fileEntry ''helper.md'', fileEntry ''notes.txt'', dirEntry ''locked.md'']
   \<and> readAgent (demoEnv ''{}'') ''/home/u/.claude/agents'' ''locked.md''
       = Inl (JsError ''EISDIR: illegal operation on a directory, read'')
   \<and> loadAgentsFromDirectory (demoEnv ''{}'') ''/home/u/.claude/agents''
       = Inr [\<lparr>Agent.name = ''helper'', path = ''/home/u/.claude/agents/helper.md'',
               description = Some ''hello'', hasReadme = False\<rparr>]
   \<and> readdirSync (demoEnv ''{}'') ''/home/u/.claude/commands''
       = Inr [dirEntry ''old.md'', fileEntry ''build.md'']
   \<and> readCommand (demoEnv ''{}'') ''/home/u/.claude/commands'' ''old.md''
       = Inl (JsError ''EISDIR: illegal operation on a directory, read'')
   \<and> loadCommandsFromDirectory (demoEnv ''{}'') ''/home/u/.claude/commands''
       = Inr [\<lparr>Command.name = ''build'', path = ''/home/u/.claude/commands/build.md'',
               description = Some ''Title Only'', usage = None, hasReadme = False\<rparr>]"
proof -
  let ?env = "demoEnv ''{}''"
  let ?e = "JsError ''ENOENT: no such file or directory, scandir''"
  let ?ls = "[dirEntry ''foo'', dirEntry ''nojson'', dirEntry ''broken'', fileEntry ''notes.txt'']"
  let ?la = "[fileEntry ''helper.md'', fileEntry ''notes.txt'', dirEntry ''locked.md'']"
  let ?lc = "[dirEntry ''old.md'', fileEntry ''build.md'']"
  have absent: "\<not> existsSync ?env ''/home/u/.claude/nothing''"
    by code_simp
  have isfile: "existsSync ?env ''/home/u/.claude/agents/helper.md''"
    and unread: "readdirSync ?env ''/home/u/.claude/agents/helper.md'' = Inl ?e"
    by code_simp+
  have sk: "existsSync ?env ''/home/u/.claude/skills''"
    "readdirSync ?env ''/home/u/.claude/skills'' = Inr ?ls"
    "readSkill ?env ''/home/u/.claude/skills'' User None (dirEntry ''broken'')
       = Inl (JsError ''Unexpected token in JSON'')"
    by code_simp+
  have ag: "existsSync ?env ''/home/u/.claude/agents''"
    "readdirSync ?env ''/home/u/.claude/agents'' = Inr ?la"
    "readAgent ?env ''/home/u/.claude/agents'' ''locked.md''
       = Inl (JsError ''EISDIR: illegal operation on a directory, read'')"
    by code_simp+
  have co: "existsSync ?env ''/home/u/.claude/commands''"
    "readdirSync ?env ''/home/u/.claude/commands'' = Inr ?lc"
    "readCommand ?env ''/home/u/.claude/commands'' ''old.md''
       = Inl (JsError ''EISDIR: illegal operation on a directory, read'')"
    by code_simp+
  note t = scan_isolates_failures [where env = ?env and l = User and p = None]
  note e1 = t [where d = "''/home/u/.claude/nothing''", THEN conjunct2, THEN conjunct2,
      THEN conjunct2, THEN conjunct1, THEN mp]
  note e2 = t [where d = "''/home/u/.claude/agents/helper.md''" and e = ?e, THEN conjunct2,
      THEN conjunct2, THEN conjunct2, THEN conjunct1, THEN mp]
  note ls = t [where d = "''/home/u/.claude/skills''" and entries = ?ls, THEN conjunct2,
      THEN conjunct2, THEN conjunct2, THEN conjunct2, THEN mp, OF conjI [OF sk(1) sk(2)]]
  note la = t [where d = "''/home/u/.claude/agents''" and entries = ?la, THEN conjunct2,
      THEN conjunct2, THEN conjunct2, THEN conjunct2, THEN mp, OF conjI [OF ag(1) ag(2)]]
  note lc = t [where d = "''/home/u/.claude/commands''" and entries = ?lc, THEN conjunct2,
      THEN conjunct2, THEN conjunct2, THEN conjunct2, THEN mp, OF conjI [OF co(1) co(2)]]
  have 1: "loadSkillsFromDirectory ?env ''/home/u/.claude/nothing'' User None = Inr []
      \<and> loadAgentsFromDirectory ?env ''/home/u/.claude/nothing'' = Inr []
      \<and> loadCommandsFromDirectory ?env ''/home/u/.claude/nothing'' = Inr []"
    using absent by (intro e1) simp
  have 2: "loadSkillsFromDirectory ?env ''/home/u/.claude/agents/helper.md'' User None = Inr []
      \<and> loadAgentsFromDirectory ?env ''/home/u/.claude/agents/helper.md'' = Inr []
      \<and> loadCommandsFromDirectory ?env ''/home/u/.claude/agents/helper.md'' = Inr []"
    using unread by (intro e2) simp
  have 3: "loadSkillsFromDirectory ?env ''/home/u/.claude/skills'' User None
       = Inr [\<lparr>Skill.name = ''foo'', location = User, path = ''/home/u/.claude/skills/foo'',
               description = None, pluginName = None, hasReadme = False, hasPrompt = False\<rparr>]"
    by (rule trans [OF ls [THEN conjunct1]]) code_simp
  have 4: "loadAgentsFromDirectory ?env ''/home/u/.claude/agents''
       = Inr [\<lparr>Agent.name = ''helper'', path = ''/home/u/.claude/agents/helper.md'',
               description = Some ''hello'', hasReadme = False\<rparr>]"
    by (rule trans [OF la [THEN conjunct2, THEN conjunct1]]) code_simp
  have 5: "loadCommandsFromDirectory ?env ''/home/u/.claude/commands''
       = Inr [\<lparr>Command.name = ''build'', path = ''/home/u/.claude/commands/build.md'',
               description = Some ''Title Only'', usage = None, hasReadme = False\<rparr>]"
    by (rule trans [OF lc [THEN conjunct2, THEN conjunct2]]) code_simp
  from absent 1 isfile unread 2 sk(2,3) 3 ag(2,3) 4 co(2,3) 5 show ?thesis
    by (intro conjI) (erule conjunct1 conjunct2 | simp)+
qed

text \<open>
  C6. When the \<^verbatim>\<open>try\<close> block of a load throws, the load stores the empty array as
  the cache and returns it; a load returns an array in every case.
\<close>

theorem load_outer_catch:
  "(scanSkills env = Inl e \<and> (cachedSkills sm = None \<or> force) \<longrightarrow>
      loadSkills env sm force = (Inr [], sm\<lparr>cachedSkills := Some []\<rparr>))
   \<and> (scanAgents env = Inl e \<and> (cachedAgents am = None \<or> force) \<longrightarrow>
      loadAgents env am force = (Inr [], am\<lparr>cachedAgents := Some []\<rparr>))
   \<and> (scanCommands env = Inl e \<and> (cachedCommands cm = None \<or> force) \<longrightarrow>
      loadCommands env cm force = (Inr [], cm\<lparr>cachedCommands := Some []\<rparr>))
   \<and> (\<exists>skills. fst (loadSkills env sm force) = Inr skills)
   \<and> (\<exists>agents. fst (loadAgents env am force) = Inr agents)
   \<and> (\<exists>commands. fst (loadCommands env cm force) = Inr commands)"
proof (intro conjI impI)
  assume "scanSkills env = Inl e \<and> (cachedSkills sm = None \<or> force)"
  then show "loadSkills env sm force = (Inr [], sm\<lparr>cachedSkills := Some []\<rparr>)"
    by (auto simp: loadSkills_def)
next
  assume "scanAgents env = Inl e \<and> (cachedAgents am = None \<or> force)"
  then show "loadAgents env am force = (Inr [], am\<lparr>cachedAgents := Some []\<rparr>)"
    by (auto simp: loadAgents_def)
next
  assume "scanCommands env = Inl e \<and> (cachedCommands cm = None \<or> force)"
  then show "loadCommands env cm force = (Inr [], cm\<lparr>cachedCommands := Some []\<rparr>)"
    by (auto simp: loadCommands_def)
next
  show "\<exists>skills. fst (loadSkills env sm force) = Inr skills" by (rule loadSkills_total)
  show "\<exists>agents. fst (loadAgents env am force) = Inr agents" by (rule loadAgents_total)
  show "\<exists>commands. fst (loadCommands env cm force) = Inr commands"
    by (rule loadCommands_total)
qed

theorem load_outer_catch_witness:
  "scanSkills noHomeEnv = Inl (JsError ''ENOENT: no such file or directory, uv_os_homedir'')
   \<and> scanAgents noHomeEnv = Inl (JsError ''ENOENT: no such file or directory, uv_os_homedir'')
   \<and> scanCommands noHomeEnv = Inl (JsError ''ENOENT: no such file or directory, uv_os_homedir'')
   \<and> loadSkills noHomeEnv newSkillsManager True
       = (Inr [], newSkillsManager\<lparr>cachedSkills := Some []\<rparr>)
   \<and> loadAgents noHomeEnv newAgentsManager True
       = (Inr [], newAgentsManager\<lparr>cachedAgents := Some []\<rparr>)
   \<and> loadCommands noHomeEnv newCommandsManager True
       = (Inr [], newCommandsManager\<lparr>cachedCommands := Some []\<rparr>)"
proof -
  let ?e = "JsError ''ENOENT: no such file or directory, uv_os_homedir''"
  have h: "os_homedir noHomeEnv = Inl ?e" by (simp add: noHomeEnv_def)
  have s: "scanSkills noHomeEnv = Inl ?e"
    by (simp add: scanSkills_def loadUserSkills_def h)
  have a: "scanAgents noHomeEnv = Inl ?e" by (simp add: scanAgents_def h)
  have c: "scanCommands noHomeEnv = Inl ?e" by (simp add: scanCommands_def h)
  from load_outer_catch [of noHomeEnv ?e newSkillsManager True newAgentsManager
      newCommandsManager] s a c
  show ?thesis by simp
qed

text \<open>
  C7. A forced load followed by a load without force, on any state of the platform,
  returns the array the first call returned and stored, and leaves the manager as the
  first call left it: the second call reads nothing.
\<close>

theorem forced_then_cached:
  "(case loadSkills env sm True of
      (r, sm') \<Rightarrow> loadSkills env' sm' False = (r, sm')
         \<and> (\<exists>skills. r = Inr skills \<and> cachedSkills sm' = Some skills))
   \<and> (case loadAgents env am True of
      (r, am') \<Rightarrow> loadAgents env' am' False = (r, am')
         \<and> (\<exists>agents. r = Inr agents \<and> cachedAgents am' = Some agents))
   \<and> (case loadCommands env cm True of
      (r, cm') \<Rightarrow> loadCommands env' cm' False = (r, cm')
         \<and> (\<exists>commands. r = Inr commands \<and> cachedCommands cm' = Some commands))"
  by (simp add: loadSkills_def loadAgents_def loadCommands_def split: sum.splits)

theorem forced_then_cached_witness:
  "loadSkills noHomeEnv (snd (loadSkills (demoEnv ''{}'') newSkillsManager True)) False
   = loadSkills (demoEnv ''{}'') newSkillsManager True
   \<and> loadAgents noHomeEnv (snd (loadAgents (demoEnv ''{}'') newAgentsManager True)) False
   = loadAgents (demoEnv ''{}'') newAgentsManager True
   \<and> loadCommands noHomeEnv (snd (loadCommands (demoEnv ''{}'') newCommandsManager True)) False
   = loadCommands (demoEnv ''{}'') newCommandsManager True"
  using forced_then_cached [where env = "demoEnv ''{}''" and env' = noHomeEnv
      and sm = newSkillsManager and am = newAgentsManager and cm = newCommandsManager]
  by (simp add: case_prod_beta)

section \<open>Claims about lookups and searches\<close>

lemma loadSkills_result:
  "\<exists>skills. loadSkills env sm force = (Inr skills, snd (loadSkills env sm force))
     \<and> cachedSkills (snd (loadSkills env sm force)) = Some skills"
  by (auto simp: loadSkills_def split: sum.splits)

lemma loadAgents_result:
  "\<exists>agents. loadAgents env am force = (Inr agents, snd (loadAgents env am force))
     \<and> cachedAgents (snd (loadAgents env am force)) = Some agents"
  by (auto simp: loadAgents_def split: sum.splits)

lemma loadCommands_result:
  "\<exists>commands. loadCommands env cm force = (Inr commands, snd (loadCommands env cm force))
     \<and> cachedCommands (snd (loadCommands env cm force)) = Some commands"
  by (auto simp: loadCommands_def split: sum.splits)

text \<open>The copy keeps the fields of the entry it was made from.\<close>

lemma readSkillDetails_truncate:
  "readSkillDetails env skill = Inr details \<Longrightarrow> Skill.truncate details = skill"
  by (auto simp: readSkillDetails_def Let_def Skill.truncate_def Skill.extend_def
      split: if_splits sum.splits)

lemma readAgentDetails_truncate:
  "readAgentDetails env n agent = Inr details \<Longrightarrow> Agent.truncate details = agent"
  by (auto simp: readAgentDetails_def Let_def Agent.truncate_def Agent.extend_def
      split: if_splits sum.splits)

lemma readCommandDetails_truncate:
  "readCommandDetails env n command = Inr details \<Longrightarrow> Command.truncate details = command"
  by (auto simp: readCommandDetails_def Let_def Command.truncate_def Command.extend_def
      split: if_splits sum.splits)

lemma getSkillDetails_state:
  "snd (getSkillDetails env sm n l) = snd (loadSkills env sm False)"
  by (cases "loadSkills env sm False")
     (auto simp: getSkillDetails_def split: sum.splits option.splits)

lemma getAgentDetails_state:
  "snd (getAgentDetails env am n) = snd (loadAgents env am False)"
  by (cases "loadAgents env am False")
     (auto simp: getAgentDetails_def split: sum.splits option.splits)

lemma getCommandDetails_state:
  "snd (getCommandDetails env cm n) = snd (loadCommands env cm False)"
  by (cases "loadCommands env cm False")
     (auto simp: getCommandDetails_def split: sum.splits option.splits)

lemma searchSkills_state:
  "snd (searchSkills env sm q f) = snd (loadSkills env sm False)"
  by (cases "loadSkills env sm False")
     (auto simp: searchSkills_def split: sum.splits)

lemma searchAgents_state:
  "snd (searchAgents env am q) = snd (loadAgents env am False)"
  by (cases "loadAgents env am False")
     (auto simp: searchAgents_def split: sum.splits)

lemma searchCommands_state:
  "snd (searchCommands env cm q) = snd (loadCommands env cm False)"
  by (cases "loadCommands env cm False")
     (auto simp: searchCommands_def split: sum.splits)

lemma getSkillDetails_found:
  assumes "fst (getSkillDetails env sm n l) = Inr (Some details)"
    and "fst (loadSkills env sm False) = Inr skills"
  shows "find (isSkill n l) skills = Some (Skill.truncate details)"
proof -
  obtain sm' where l: "loadSkills env sm False = (Inr skills, sm')"
    using assms(2) by (cases "loadSkills env sm False") simp
  from assms(1) l obtain skill where
    f: "find (isSkill n l) skills = Some skill" and r: "readSkillDetails env skill = Inr details"
    by (auto simp: getSkillDetails_def split: option.splits sum.splits)
  from readSkillDetails_truncate [OF r] f show ?thesis by simp
qed

lemma getAgentDetails_found:
  assumes "fst (getAgentDetails env am n) = Inr (Some details)"
    and "fst (loadAgents env am False) = Inr agents"
  shows "find (\<lambda>a. n = Some (JString (Agent.name a))) agents = Some (Agent.truncate details)"
proof -
  obtain am' where l: "loadAgents env am False = (Inr agents, am')"
    using assms(2) by (cases "loadAgents env am False") simp
  from assms(1) l obtain agent where
    f: "find (\<lambda>a. n = Some (JString (Agent.name a))) agents = Some agent"
    and r: "readAgentDetails env (Agent.name agent) agent = Inr details"
    by (auto simp: getAgentDetails_def split: option.splits sum.splits)
  from readAgentDetails_truncate [OF r] f show ?thesis by simp
qed

lemma getCommandDetails_found:
  assumes "fst (getCommandDetails env cm n) = Inr (Some details)"
    and "fst (loadCommands env cm False) = Inr commands"
  shows "find (\<lambda>a. n = Some (JString (Command.name a))) commands
    = Some (Command.truncate details)"
proof -
  obtain cm' where l: "loadCommands env cm False = (Inr commands, cm')"
    using assms(2) by (cases "loadCommands env cm False") simp
  from assms(1) l obtain command where
    f: "find (\<lambda>a. n = Some (JString (Command.name a))) commands = Some command"
    and r: "readCommandDetails env (Command.name command) command = Inr details"
    by (auto simp: getCommandDetails_def split: option.splits sum.splits)
  from readCommandDetails_truncate [OF r] f show ?thesis by simp
qed

lemma find_Some_member: "find P xs = Some x \<Longrightarrow> x \<in> set xs"
  by (induction xs) (auto split: if_splits)

lemma locationTag_inject: "locationTag a = locationTag b \<longleftrightarrow> a = b"
  by (cases a; cases b) simp_all

lemma isSkill_strings:
  "isSkill (Some (JString n)) (Some (JString (locationTag l))) s
     \<longleftrightarrow> Skill.name s = n \<and> Skill.location s = l"
  by (auto simp: isSkill_def locationTag_inject)

text \<open>
  C8. \<^verbatim>\<open>getSkillDetails\<close> never throws and leaves the manager as a load without force
  leaves it. It looks for the first entry of the loaded array whose name and location
  equal the arguments, character by character; when there is none the result is
  \<^verbatim>\<open>null\<close>, and a result that is not \<^verbatim>\<open>null\<close> is a copy of that first entry.
\<close>

theorem getSkillDetails_lookup:
  "(\<exists>r. fst (getSkillDetails env sm skillName loc) = Inr r)
   \<and> snd (getSkillDetails env sm skillName loc) = snd (loadSkills env sm False)
   \<and> (fst (loadSkills env sm False) = Inr skills
        \<and> find (isSkill skillName loc) skills = None \<longrightarrow>
        fst (getSkillDetails env sm skillName loc) = Inr None)
   \<and> (fst (loadSkills env sm False) = Inr skills
        \<and> \<not> (\<exists>s \<in> set skills. Skill.name s = n \<and> Skill.location s = l) \<longrightarrow>
        fst (getSkillDetails env sm (Some (JString n)) (Some (JString (locationTag l))))
          = Inr None)
   \<and> (fst (loadSkills env sm False) = Inr skills
        \<and> fst (getSkillDetails env sm skillName loc) = Inr (Some details) \<longrightarrow>
        find (isSkill skillName loc) skills = Some (Skill.truncate details))"
proof (intro conjI impI)
  show "\<exists>r. fst (getSkillDetails env sm skillName loc) = Inr r"
    by (cases "loadSkills env sm False")
       (auto simp: getSkillDetails_def split: sum.splits option.splits)
  show "snd (getSkillDetails env sm skillName loc) = snd (loadSkills env sm False)"
    by (rule getSkillDetails_state)
next
  assume "fst (loadSkills env sm False) = Inr skills
        \<and> find (isSkill skillName loc) skills = None"
  then show "fst (getSkillDetails env sm skillName loc) = Inr None"
    by (cases "loadSkills env sm False") (auto simp: getSkillDetails_def)
next
  assume a: "fst (loadSkills env sm False) = Inr skills
        \<and> \<not> (\<exists>s \<in> set skills. Skill.name s = n \<and> Skill.location s = l)"
  then have "find (isSkill (Some (JString n)) (Some (JString (locationTag l)))) skills = None"
    by (auto simp: find_None_iff isSkill_strings)
  with a show "fst (getSkillDetails env sm (Some (JString n)) (Some (JString (locationTag l))))
      = Inr None"
    by (cases "loadSkills env sm False") (auto simp: getSkillDetails_def)
next
  assume "fst (loadSkills env sm False) = Inr skills
        \<and> fst (getSkillDetails env sm skillName loc) = Inr (Some details)"
  then show "find (isSkill skillName loc) skills = Some (Skill.truncate details)"
    using getSkillDetails_found by blast
qed

theorem getSkillDetails_lookup_witness:
  "fst (getSkillDetails (demoEnv ''{}'') newSkillsManager
          (Some (JString ''Bar'')) (Some (JString ''project''))) = Inr None
   \<and> fst (getSkillDetails (demoEnv ''{}'') newSkillsManager
          (Some (JString ''bar'')) (Some (JString (locationTag User)))) = Inr None
   \<and> fst (getSkillDetails (demoEnv ''{}'') newSkillsManager
          (Some (JString ''bar'')) (Some (JString ''project'')))
       = Inr (Some \<lparr>Skill.name = ''bar'', location = Project,
                     path = ''/work/.claude/skills/bar'', description = None,
                     pluginName = None, hasReadme = True, hasPrompt = False,
                     skillJson = Some (JObject []), readmeContent = Some ''# bar'',
                     promptContent = None\<rparr>)
   \<and> find (isSkill (Some (JString ''bar'')) (Some (JString ''project'')))
        [\<lparr>Skill.name = ''foo'', location = User, path = ''/home/u/.claude/skills/foo'',
           description = None, pluginName = None, hasReadme = False, hasPrompt = False\<rparr>,
         \<lparr>Skill.name = ''bar'', location = Project, path = ''/work/.claude/skills/bar'',
           description = None, pluginName = None, hasReadme = True, hasPrompt = False\<rparr>,
         \<lparr>Skill.name = ''baz'', location = Managed,
           path = ''/home/u/.claude/plugins/marketplaces/m1/plugins/p1/skills/baz'',
           description = Some (JString ''Managed BAZ''), pluginName = Some ''p1'',
           hasReadme = False, hasPrompt = False\<rparr>]
       = Some \<lparr>Skill.name = ''bar'', location = Project, path = ''/work/.claude/skills/bar'',
                description = None, pluginName = None, hasReadme = True,
                hasPrompt = False\<rparr>"
proof -
  let ?env = "demoEnv ''{}''"
  let ?bar = "\<lparr>Skill.name = ''bar'', location = Project, path = ''/work/.claude/skills/bar'',
                description = None, pluginName = None, hasReadme = True,
                hasPrompt = False\<rparr>"
  let ?loaded = "[\<lparr>Skill.name = ''foo'', location = User,
           path = ''/home/u/.claude/skills/foo'',
           description = None, pluginName = None, hasReadme = False, hasPrompt = False\<rparr>,
         ?bar,
         \<lparr>Skill.name = ''baz'', location = Managed,
           path = ''/home/u/.claude/plugins/marketplaces/m1/plugins/p1/skills/baz'',
           description = Some (JString ''Managed BAZ''), pluginName = Some ''p1'',
           hasReadme = False, hasPrompt = False\<rparr>]"
  let ?details = "\<lparr>Skill.name = ''bar'', location = Project,
                     path = ''/work/.claude/skills/bar'', description = None,
                     pluginName = None, hasReadme = True, hasPrompt = False,
                     skillJson = Some (JObject []), readmeContent = Some ''# bar'',
                     promptContent = None\<rparr>"
  have load: "fst (loadSkills ?env newSkillsManager False) = Inr ?loaded"
    by code_simp
  have none: "find (isSkill (Some (JString ''Bar'')) (Some (JString ''project''))) ?loaded = None"
    by code_simp
  have absent: "\<not> (\<exists>s \<in> set ?loaded. Skill.name s = ''bar'' \<and> Skill.location s = User)"
    by simp
  have found: "fst (getSkillDetails ?env newSkillsManager
          (Some (JString ''bar'')) (Some (JString ''project''))) = Inr (Some ?details)"
    by code_simp
  have tr: "Skill.truncate ?details = ?bar"
    by (simp add: Skill.truncate_def)
  note t = getSkillDetails_lookup [where env = ?env and sm = newSkillsManager
      and skills = ?loaded]
  from t [where skillName = "Some (JString ''Bar'')" and loc = "Some (JString ''project'')"]
    load none
  have 1: "fst (getSkillDetails ?env newSkillsManager
          (Some (JString ''Bar'')) (Some (JString ''project''))) = Inr None"
    by blast
  from t [where n = "''bar''" and l = User] load absent
  have 2: "fst (getSkillDetails ?env newSkillsManager
          (Some (JString ''bar'')) (Some (JString (locationTag User)))) = Inr None"
    by blast
  from t [where skillName = "Some (JString ''bar'')" and loc = "Some (JString ''project'')"
      and details = ?details] load found
  have 3: "find (isSkill (Some (JString ''bar'')) (Some (JString ''project''))) ?loaded
      = Some (Skill.truncate ?details)"
    by blast
  from 1 2 3 found tr show ?thesis by simp
qed

text \<open>
  C10. A search and a lookup, whether they return or throw, leave the manager exactly as
  a load without force leaves it, and so unchanged when the cache is already loaded. The
  details a lookup returns carry, in the fields of an entry, an entry of the cache as it
  is after the call.
\<close>

theorem queries_keep_cache:
  "snd (searchSkills env sm q f) = snd (loadSkills env sm False)
   \<and> snd (getSkillDetails env sm n l) = snd (loadSkills env sm False)
   \<and> snd (searchAgents env am q) = snd (loadAgents env am False)
   \<and> snd (getAgentDetails env am n) = snd (loadAgents env am False)
   \<and> snd (searchCommands env cm q) = snd (loadCommands env cm False)
   \<and> snd (getCommandDetails env cm n) = snd (loadCommands env cm False)
   \<and> (cachedSkills sm \<noteq> None \<longrightarrow>
        snd (searchSkills env sm q f) = sm \<and> snd (getSkillDetails env sm n l) = sm)
   \<and> (cachedAgents am \<noteq> None \<longrightarrow>
        snd (searchAgents env am q) = am \<and> snd (getAgentDetails env am n) = am)
   \<and> (cachedCommands cm \<noteq> None \<longrightarrow>
        snd (searchCommands env cm q) = cm \<and> snd (getCommandDetails env cm n) = cm)
   \<and> (fst (getSkillDetails env sm n l) = Inr (Some sd) \<longrightarrow>
        (\<exists>skills. cachedSkills (snd (getSkillDetails env sm n l)) = Some skills
           \<and> Skill.truncate sd \<in> set skills))
   \<and> (fst (getAgentDetails env am n) = Inr (Some ad) \<longrightarrow>
        (\<exists>agents. cachedAgents (snd (getAgentDetails env am n)) = Some agents
           \<and> Agent.truncate ad \<in> set agents))
   \<and> (fst (getCommandDetails env cm n) = Inr (Some cd) \<longrightarrow>
        (\<exists>commands. cachedCommands (snd (getCommandDetails env cm n)) = Some commands
           \<and> Command.truncate cd \<in> set commands))"
proof (intro conjI impI)
  show "snd (searchSkills env sm q f) = snd (loadSkills env sm False)"
    by (rule searchSkills_state)
  show "snd (getSkillDetails env sm n l) = snd (loadSkills env sm False)"
    by (rule getSkillDetails_state)
  show "snd (searchAgents env am q) = snd (loadAgents env am False)"
    by (rule searchAgents_state)
  show "snd (getAgentDetails env am n) = snd (loadAgents env am False)"
    by (rule getAgentDetails_state)
  show "snd (searchCommands env cm q) = snd (loadCommands env cm False)"
    by (rule searchCommands_state)
  show "snd (getCommandDetails env cm n) = snd (loadCommands env cm False)"
    by (rule getCommandDetails_state)
next
  assume "cachedSkills sm \<noteq> None"
  then have "snd (loadSkills env sm False) = sm" by (simp add: loadSkills_def)
  then show "snd (searchSkills env sm q f) = sm" and "snd (getSkillDetails env sm n l) = sm"
    by (simp_all add: searchSkills_state getSkillDetails_state)
next
  assume "cachedAgents am \<noteq> None"
  then have "snd (loadAgents env am False) = am" by (simp add: loadAgents_def)
  then show "snd (searchAgents env am q) = am" and "snd (getAgentDetails env am n) = am"
    by (simp_all add: searchAgents_state getAgentDetails_state)
next
  assume "cachedCommands cm \<noteq> None"
  then have "snd (loadCommands env cm False) = cm" by (simp add: loadCommands_def)
  then show "snd (searchCommands env cm q) = cm" and "snd (getCommandDetails env cm n) = cm"
    by (simp_all add: searchCommands_state getCommandDetails_state)
next
  assume a: "fst (getSkillDetails env sm n l) = Inr (Some sd)"
  from loadSkills_result [of env sm False] obtain skills where
    l: "fst (loadSkills env sm False) = Inr skills"
    and c: "cachedSkills (snd (loadSkills env sm False)) = Some skills"
    by (metis fst_conv)
  from getSkillDetails_found [OF a l] have "Skill.truncate sd \<in> set skills"
    by (rule find_Some_member)
  with c show "\<exists>skills. cachedSkills (snd (getSkillDetails env sm n l)) = Some skills
      \<and> Skill.truncate sd \<in> set skills"
    by (simp add: getSkillDetails_state)
next
  assume a: "fst (getAgentDetails env am n) = Inr (Some ad)"
  from loadAgents_result [of env am False] obtain agents where
    l: "fst (loadAgents env am False) = Inr agents"
    and c: "cachedAgents (snd (loadAgents env am False)) = Some agents"
    by (metis fst_conv)
  from getAgentDetails_found [OF a l] have "Agent.truncate ad \<in> set agents"
    by (rule find_Some_member)
  with c show "\<exists>agents. cachedAgents (snd (getAgentDetails env am n)) = Some agents
      \<and> Agent.truncate ad \<in> set agents"
    by (simp add: getAgentDetails_state)
next
  assume a: "fst (getCommandDetails env cm n) = Inr (Some cd)"
  from loadCommands_result [of env cm False] obtain commands where
    l: "fst (loadCommands env cm False) = Inr commands"
    and c: "cachedCommands (snd (loadCommands env cm False)) = Some commands"
    by (metis fst_conv)
  from getCommandDetails_found [OF a l] have "Command.truncate cd \<in> set commands"
    by (rule find_Some_member)
  with c show "\<exists>commands. cachedCommands (snd (getCommandDetails env cm n)) = Some commands
      \<and> Command.truncate cd \<in> set commands"
    by (simp add: getCommandDetails_state)
qed

theorem queries_keep_cache_witness:
  "cachedSkills \<lparr>cachedSkills = Some
        [\<lparr>Skill.name = ''bar'', location = Project, path = ''/work/.claude/skills/bar'',
           description = None, pluginName = None, hasReadme = True, hasPrompt = False\<rparr>],
      lastLoadTime = 5\<rparr> \<noteq> None
   \<and> snd (searchSkills (demoEnv ''{}'')
        \<lparr>cachedSkills = Some
          [\<lparr>Skill.name = ''bar'', location = Project, path = ''/work/.claude/skills/bar'',
             description = None, pluginName = None, hasReadme = True, hasPrompt = False\<rparr>],
         lastLoadTime = 5\<rparr> (Some (JString ''ba'')) None)
     = \<lparr>cachedSkills = Some
          [\<lparr>Skill.name = ''bar'', location = Project, path = ''/work/.claude/skills/bar'',
             description = None, pluginName = None, hasReadme = True, hasPrompt = False\<rparr>],
         lastLoadTime = 5\<rparr>
   \<and> fst (getSkillDetails (demoEnv ''{}'')
        \<lparr>cachedSkills = Some
          [\<lparr>Skill.name = ''bar'', location = Project, path = ''/work/.claude/skills/bar'',
             description = None, pluginName = None, hasReadme = True, hasPrompt = False\<rparr>],
         lastLoadTime = 5\<rparr> (Some (JString ''bar'')) (Some (JString ''project'')))
     = Inr (Some \<lparr>Skill.name = ''bar'', location = Project,
                   path = ''/work/.claude/skills/bar'', description = None,
                   pluginName = None, hasReadme = True, hasPrompt = False,
                   skillJson = Some (JObject []), readmeContent = Some ''# bar'',
                   promptContent = None\<rparr>)
   \<and> snd (getSkillDetails (demoEnv ''{}'')
        \<lparr>cachedSkills = Some
          [\<lparr>Skill.name = ''bar'', location = Project, path = ''/work/.claude/skills/bar'',
             description = None, pluginName = None, hasReadme = True, hasPrompt = False\<rparr>],
         lastLoadTime = 5\<rparr> (Some (JString ''bar'')) (Some (JString ''project'')))
     = \<lparr>cachedSkills = Some
          [\<lparr>Skill.name = ''bar'', location = Project, path = ''/work/.claude/skills/bar'',
             description = None, pluginName = None, hasReadme = True, hasPrompt = False\<rparr>],
         lastLoadTime = 5\<rparr>
   \<and> (\<exists>skills.
        cachedSkills (snd (getSkillDetails (demoEnv ''{}'')
          \<lparr>cachedSkills = Some
            [\<lparr>Skill.name = ''bar'', location = Project, path = ''/work/.claude/skills/bar'',
               description = None, pluginName = None, hasReadme = True,
               hasPrompt = False\<rparr>],
           lastLoadTime = 5\<rparr> (Some (JString ''bar'')) (Some (JString ''project''))))
          = Some skills
      \<and> Skill.truncate
           \<lparr>Skill.name = ''bar'', location = Project,
             path = ''/work/.claude/skills/bar'', description = None,
             pluginName = None, hasReadme = True, hasPrompt = False,
             skillJson = Some (JObject []), readmeContent = Some ''# bar'',
             promptContent = None\<rparr> \<in> set skills)
   \<and> cachedAgents \<lparr>cachedAgents = Some
        [\<lparr>Agent.name = ''helper'', path = ''/home/u/.claude/agents/helper.md'',
           description = Some ''hello'', hasReadme = False\<rparr>],
      lastLoadTime = 5\<rparr> \<noteq> None
   \<and> snd (searchAgents (demoEnv ''{}'')
        \<lparr>cachedAgents = Some
          [\<lparr>Agent.name = ''helper'', path = ''/home/u/.claude/agents/helper.md'',
             description = Some ''hello'', hasReadme = False\<rparr>],
         lastLoadTime = 5\<rparr> (Some (JString ''ba'')))
     = \<lparr>cachedAgents = Some
          [\<lparr>Agent.name = ''helper'', path = ''/home/u/.claude/agents/helper.md'',
             description = Some ''hello'', hasReadme = False\<rparr>],
         lastLoadTime = 5\<rparr>
   \<and> fst (getAgentDetails (demoEnv ''{}'')
        \<lparr>cachedAgents = Some
          [\<lparr>Agent.name = ''helper'', path = ''/home/u/.claude/agents/helper.md'',
             description = Some ''hello'', hasReadme = False\<rparr>],
         lastLoadTime = 5\<rparr> (Some (JString ''helper'')))
     = Inr (Some \<lparr>Agent.name = ''helper'', path = ''/home/u/.claude/agents/helper.md'',
                   description = Some ''hello'', hasReadme = False,
                   AgentDetails.content =
                     Some ''---\<newline>description: hello\<newline>---\<newline># Title'',
                   readmeContent = None\<rparr>)
   \<and> (\<exists>agents.
        cachedAgents (snd (getAgentDetails (demoEnv ''{}'')
          \<lparr>cachedAgents = Some
            [\<lparr>Agent.name = ''helper'', path = ''/home/u/.claude/agents/helper.md'',
               description = Some ''hello'', hasReadme = False\<rparr>],
           lastLoadTime = 5\<rparr> (Some (JString ''helper'')))) = Some agents
      \<and> Agent.truncate
           \<lparr>Agent.name = ''helper'', path = ''/home/u/.claude/agents/helper.md'',
             description = Some ''hello'', hasReadme = False,
             AgentDetails.content =
               Some ''---\<newline>description: hello\<newline>---\<newline># Title'',
             readmeContent = None\<rparr> \<in> set agents)
   \<and> cachedCommands \<lparr>cachedCommands = Some
        [\<lparr>Command.name = ''build'', path = ''/home/u/.claude/commands/build.md'',
           description = Some ''Title Only'', usage = None, hasReadme = False\<rparr>],
      lastLoadTime = 5\<rparr> \<noteq> None
   \<and> snd (searchCommands (demoEnv ''{}'')
        \<lparr>cachedCommands = Some
          [\<lparr>Command.name = ''build'', path = ''/home/u/.claude/commands/build.md'',
             description = Some ''Title Only'', usage = None, hasReadme = False\<rparr>],
         lastLoadTime = 5\<rparr> (Some (JString ''ba'')))
     = \<lparr>cachedCommands = Some
          [\<lparr>Command.name = ''build'', path = ''/home/u/.claude/commands/build.md'',
             description = Some ''Title Only'', usage = None, hasReadme = False\<rparr>],
         lastLoadTime = 5\<rparr>
   \<and> fst (getCommandDetails (demoEnv ''{}'')
        \<lparr>cachedCommands = Some
          [\<lparr>Command.name = ''build'', path = ''/home/u/.claude/commands/build.md'',
             description = Some ''Title Only'', usage = None, hasReadme = False\<rparr>],
         lastLoadTime = 5\<rparr> (Some (JString ''build'')))
     = Inr (Some \<lparr>Command.name = ''build'', path = ''/home/u/.claude/commands/build.md'',
                   description = Some ''Title Only'', usage = None, hasReadme = False,
                   content = Some ''# Title Only'', readmeContent = None\<rparr>)
   \<and> (\<exists>commands.
        cachedCommands (snd (getCommandDetails (demoEnv ''{}'')
          \<lparr>cachedCommands = Some
            [\<lparr>Command.name = ''build'', path = ''/home/u/.claude/commands/build.md'',
               description = Some ''Title Only'', usage = None, hasReadme = False\<rparr>],
           lastLoadTime = 5\<rparr> (Some (JString ''build'')))) = Some commands
      \<and> Command.truncate
           \<lparr>Command.name = ''build'', path = ''/home/u/.claude/commands/build.md'',
             description = Some ''Title Only'', usage = None, hasReadme = False,
             content = Some ''# Title Only'', readmeContent = None\<rparr> \<in> set commands)"
proof -
  let ?env = "demoEnv ''{}''"
  let ?sm = "\<lparr>cachedSkills = Some
          [\<lparr>Skill.name = ''bar'', location = Project, path = ''/work/.claude/skills/bar'',
             description = None, pluginName = None, hasReadme = True, hasPrompt = False\<rparr>],
         lastLoadTime = 5\<rparr>"
  let ?am = "\<lparr>cachedAgents = Some
          [\<lparr>Agent.name = ''helper'', path = ''/home/u/.claude/agents/helper.md'',
             description = Some ''hello'', hasReadme = False\<rparr>],
         lastLoadTime = 5\<rparr>"
  let ?cm = "\<lparr>cachedCommands = Some
          [\<lparr>Command.name = ''build'', path = ''/home/u/.claude/commands/build.md'',
             description = Some ''Title Only'', usage = None, hasReadme = False\<rparr>],
         lastLoadTime = 5\<rparr>"
  let ?sd = "\<lparr>Skill.name = ''bar'', location = Project,
                   path = ''/work/.claude/skills/bar'', description = None,
                   pluginName = None, hasReadme = True, hasPrompt = False,
                   skillJson = Some (JObject []), readmeContent = Some ''# bar'',
                   promptContent = None\<rparr>"
  let ?ad = "\<lparr>Agent.name = ''helper'', path = ''/home/u/.claude/agents/helper.md'',
             description = Some ''hello'', hasReadme = False,
             AgentDetails.content =
               Some ''---\<newline>description: hello\<newline>---\<newline># Title'',
             readmeContent = None\<rparr>"
  let ?cd = "\<lparr>Command.name = ''build'', path = ''/home/u/.claude/commands/build.md'',
             description = Some ''Title Only'', usage = None, hasReadme = False,
             content = Some ''# Title Only'', readmeContent = None\<rparr>"
  have cs: "cachedSkills ?sm \<noteq> None" by simp
  have ca: "cachedAgents ?am \<noteq> None" by simp
  have cc: "cachedCommands ?cm \<noteq> None" by simp
  have s: "fst (getSkillDetails ?env ?sm (Some (JString ''bar'')) (Some (JString ''project'')))
      = Inr (Some ?sd)"
    by code_simp
  have a: "fst (getAgentDetails ?env ?am (Some (JString ''helper''))) = Inr (Some ?ad)"
    by code_simp
  have k: "fst (getCommandDetails ?env ?cm (Some (JString ''build''))) = Inr (Some ?cd)"
    by code_simp
  note t = queries_keep_cache [where env = ?env and sm = ?sm and am = ?am and cm = ?cm
      and q = "Some (JString ''ba'')" and f = None]
  from t [where n = "Some (JString ''bar'')" and l = "Some (JString ''project'')"
      and sd = ?sd] cs s
  have 1: "snd (searchSkills ?env ?sm (Some (JString ''ba'')) None) = ?sm"
    and 2: "snd (getSkillDetails ?env ?sm (Some (JString ''bar'')) (Some (JString ''project'')))
      = ?sm"
    and 3: "\<exists>skills.
        cachedSkills (snd (getSkillDetails ?env ?sm (Some (JString ''bar''))
                             (Some (JString ''project'')))) = Some skills
      \<and> Skill.truncate ?sd \<in> set skills"
    by blast+
  from t [where n = "Some (JString ''helper'')" and ad = ?ad] ca a
  have 4: "snd (searchAgents ?env ?am (Some (JString ''ba''))) = ?am"
    and 5: "\<exists>agents.
        cachedAgents (snd (getAgentDetails ?env ?am (Some (JString ''helper'')))) = Some agents
      \<and> Agent.truncate ?ad \<in> set agents"
    by blast+
  from t [where n = "Some (JString ''build'')" and cd = ?cd] cc k
  have 6: "snd (searchCommands ?env ?cm (Some (JString ''ba''))) = ?cm"
    and 7: "\<exists>commands.
        cachedCommands (snd (getCommandDetails ?env ?cm (Some (JString ''build''))))
          = Some commands
      \<and> Command.truncate ?cd \<in> set commands"
    by blast+
  from cs 1 s 2 3 ca 4 a 5 cc 6 k 7 show ?thesis by (intro conjI)
qed

section \<open>Claims about the router\<close>










section \<open>Claims about the search\<close>

lemma includesStr_iff: "includesStr s q \<longleftrightarrow> (\<exists>ps ss. s = ps @ q @ ss)"
proof (induction s)
  case Nil
  show ?case by auto
next
  case (Cons c cs)
  show ?case
  proof
    assume "includesStr (c # cs) q"
    then consider "prefix q (c # cs)" | "includesStr cs q" by auto
    then show "\<exists>ps ss. c # cs = ps @ q @ ss"
    proof cases
      case 1
      then obtain ss where "c # cs = q @ ss" by (auto simp: prefix_def)
      then have "c # cs = [] @ q @ ss" by simp
      then show ?thesis by blast
    next
      case 2
      then obtain ps ss where "cs = ps @ q @ ss" using Cons.IH by blast
      then have "c # cs = (c # ps) @ q @ ss" by simp
      then show ?thesis by blast
    qed
  next
    assume "\<exists>ps ss. c # cs = ps @ q @ ss"
    then obtain ps ss where e: "c # cs = ps @ q @ ss" by blast
    show "includesStr (c # cs) q"
    proof (cases ps)
      case Nil
      then have "prefix q (c # cs)" using e by (auto simp: prefix_def)
      then show ?thesis by simp
    next
      case (Cons p ps')
      then have "cs = ps' @ q @ ss" using e by simp
      then have "includesStr cs q" using Cons.IH by blast
      then show ?thesis by simp
    qed
  qed
qed

lemma includesStr_empty: "includesStr s []"
  by (cases s) simp_all

lemma toLowerCaseChar_idem: "toLowerCaseChar (toLowerCaseChar c) = toLowerCaseChar c"
proof -
  have n: "of_char c < (256::nat)" by simp
  show ?thesis
    unfolding toLowerCaseChar_def Let_def
    using n by (auto simp: of_char_of)
qed

lemma toLowerCase_idem: "toLowerCase (toLowerCase s) = toLowerCase s"
  by (simp add: toLowerCase_def toLowerCaseChar_idem)

lemma filterE_total:
  assumes "\<And>x. x \<in> set xs \<Longrightarrow> p x = Inr (q x)"
  shows "filterE p xs = Inr (filter q xs)"
  using assms by (induction xs) auto

text \<open>An entry whose description is a string or absent, as the interface declares it.\<close>

lemma skillMatches_declared:
  assumes "Skill.description s = None \<or> (\<exists>d. Skill.description s = Some (JString d))"
  shows "skillMatches (toLowerCase q) (filterArg lf) s
    = Inr ((case lf of None \<Rightarrow> True | Some l \<Rightarrow> Skill.location s = l) \<and> spec_matches q s)"
proof -
  have loc: "(truthy (filterArg lf)
        \<and> Some (JString (locationTag (Skill.location s))) \<noteq> filterArg lf)
      \<longleftrightarrow> \<not> (case lf of None \<Rightarrow> True | Some l \<Rightarrow> Skill.location s = l)"
    by (cases lf; cases "Skill.location s"; cases "the lf")
       (auto simp: filterArg_def)
  have desc: "optLowerIncludes (Skill.description s) (toLowerCase q)
      = Inr (case Skill.description s of
               Some (JString d) \<Rightarrow> spec_contains d q
             | _ \<Rightarrow> False)"
    using assms by (auto simp: spec_contains_def)
  have plug: "optLowerIncludes (map_option JString (pluginName s)) (toLowerCase q)
      = Inr (case pluginName s of Some p \<Rightarrow> spec_contains p q | None \<Rightarrow> False)"
    by (cases "pluginName s") (simp_all add: spec_contains_def)
  show ?thesis
    unfolding skillMatches_def Let_def desc plug
    using loc by (auto simp: spec_matches_def spec_contains_def)
qed

text \<open>
  On a loaded array whose descriptions are strings or absent, \<^verbatim>\<open>searchSkills\<close> with a
  string query is the search of the specification.
\<close>

lemma searchSkills_declared:
  assumes "fst (loadSkills env sm False) = Inr skills"
    and "\<And>s. s \<in> set skills \<Longrightarrow>
           Skill.description s = None \<or> (\<exists>d. Skill.description s = Some (JString d))"
  shows "fst (searchSkills env sm (Some (JString q)) (filterArg lf))
    = Inr (spec_search skills q lf)"
proof -
  obtain sm' where l: "loadSkills env sm False = (Inr skills, sm')"
    using assms(1) by (cases "loadSkills env sm False") simp
  have "filterE (skillMatches (toLowerCase q) (filterArg lf)) skills
      = Inr (filter (\<lambda>s. (case lf of None \<Rightarrow> True | Some l \<Rightarrow> Skill.location s = l)
                          \<and> spec_matches q s) skills)"
    by (rule filterE_total) (simp add: skillMatches_declared assms(2))
  then show ?thesis
    using l by (simp add: searchSkills_def spec_search_def conj_commute)
qed

lemma spec_search_empty_query: "spec_search skills [] None = skills"
  by (simp add: spec_search_def spec_matches_def spec_contains_def toLowerCase_def
      includesStr_empty)

lemma spec_search_case_insensitive:
  assumes "toLowerCase q = toLowerCase q'"
  shows "spec_search skills q lf = spec_search skills q' lf"
proof -
  have "spec_contains x q = spec_contains x q'" for x
    using assms by (simp add: spec_contains_def)
  then have "spec_matches q = spec_matches q'"
    by (auto simp: spec_matches_def fun_eq_iff split: option.splits json.splits)
  then show ?thesis by (simp add: spec_search_def)
qed

lemma spec_search_FOO: "spec_search skills ''FOO'' lf = spec_search skills ''foo'' lf"
  by (rule spec_search_case_insensitive) code_simp

lemma demo_search:
  "fst (searchSkills (demoEnv descriptorFoo) newSkillsManager (Some (JString ''BA'')) None)
     = Inr [\<lparr>Skill.name = ''bar'', location = Project, path = ''/work/.claude/skills/bar'',
              description = None, pluginName = None, hasReadme = True, hasPrompt = False\<rparr>,
            \<lparr>Skill.name = ''baz'', location = Managed,
              path = ''/home/u/.claude/plugins/marketplaces/m1/plugins/p1/skills/baz'',
              description = Some (JString ''Managed BAZ''), pluginName = Some ''p1'',
              hasReadme = False, hasPrompt = False\<rparr>]"
  by code_simp

text \<open>
  C3 fails on the code. The descriptor of \<^verbatim>\<open>foo\<close> holds a number as description; the
  loader stores it in the entry, and every search then throws a TypeError, where the
  search of the specification for \<^verbatim>\<open>foo\<close> returns that entry.
\<close>

theorem search_throws_on_numeric_description:
  "fst (loadSkills (demoEnv descriptorNumeric) newSkillsManager False)
     = Inr [\<lparr>Skill.name = ''foo'', location = User, path = ''/home/u/.claude/skills/foo'',
              description = Some (JNumber 42), pluginName = None,
              hasReadme = False, hasPrompt = False\<rparr>,
            \<lparr>Skill.name = ''bar'', location = Project, path = ''/work/.claude/skills/bar'',
              description = None, pluginName = None, hasReadme = True, hasPrompt = False\<rparr>,
            \<lparr>Skill.name = ''baz'', location = Managed,
              path = ''/home/u/.claude/plugins/marketplaces/m1/plugins/p1/skills/baz'',
              description = Some (JString ''Managed BAZ''), pluginName = Some ''p1'',
              hasReadme = False, hasPrompt = False\<rparr>]
   \<and> fst (searchSkills (demoEnv descriptorNumeric) newSkillsManager
            (Some (JString ''foo'')) None)
     = Inl (JsError ''toLowerCase is not a function'')
   \<and> fst (searchSkills (demoEnv descriptorNumeric) newSkillsManager (Some (JString [])) None)
     = Inl (JsError ''toLowerCase is not a function'')
   \<and> spec_search
        [\<lparr>Skill.name = ''foo'', location = User, path = ''/home/u/.claude/skills/foo'',
           description = Some (JNumber 42), pluginName = None,
           hasReadme = False, hasPrompt = False\<rparr>,
         \<lparr>Skill.name = ''bar'', location = Project, path = ''/work/.claude/skills/bar'',
           description = None, pluginName = None, hasReadme = True, hasPrompt = False\<rparr>,
         \<lparr>Skill.name = ''baz'', location = Managed,
           path = ''/home/u/.claude/plugins/marketplaces/m1/plugins/p1/skills/baz'',
           description = Some (JString ''Managed BAZ''), pluginName = Some ''p1'',
           hasReadme = False, hasPrompt = False\<rparr>] ''foo'' None
     = [\<lparr>Skill.name = ''foo'', location = User, path = ''/home/u/.claude/skills/foo'',
          description = Some (JNumber 42), pluginName = None,
          hasReadme = False, hasPrompt = False\<rparr>]"
  by code_simp

section \<open>Claims about the description heuristic\<close>

text \<open>The three examples of the specification.\<close>

lemma extractDescription_frontmatter:
  "extractDescription ''---\<newline>description: hello\<newline>---\<newline># Title'' = Some ''hello''"
  by code_simp

lemma extractDescription_title: "extractDescription ''# Title Only'' = Some ''Title Only''"
  by code_simp

lemma extractDescription_neither: "extractDescription ''plain text'' = None"
  by code_simp

text \<open>A text with neither pattern has no description.\<close>

lemma run_lits_mismatch:
  "\<not> prefix l s \<Longrightarrow> run (lits l @ ns) s g cap = None"
proof (induction l arbitrary: s cap)
  case Nil
  then show ?case by simp
next
  case (Cons c l)
  show ?case
  proof (cases s)
    case Nil
    then show ?thesis by (simp add: lits_def)
  next
    case (Cons x xs)
    show ?thesis
    proof (cases "x = c")
      case True
      then have "\<not> prefix l xs" using Cons.prems Cons by simp
      from Cons.IH [OF this] show ?thesis using Cons True by (simp add: lits_def)
    next
      case False
      then show ?thesis using Cons by (simp add: lits_def)
    qed
  qed
qed

lemma execFrom_StartOfInput_later: "execFrom StartOfInput ns (Some p) s = None"
  by (induction s arbitrary: p) simp_all

lemma matchGroup_frontmatter_none:
  assumes "\<not> prefix ''---'' s"
  shows "matchGroup frontmatterRe s = None"
proof -
  have r: "run (snd frontmatterRe) s False [] = None"
    unfolding frontmatterRe_def snd_conv append_assoc
    by (rule run_lits_mismatch [OF assms])
  show ?thesis
    using r by (cases s)
      (simp_all add: matchGroup_def frontmatterRe_def execFrom_StartOfInput_later)
qed

lemma execFrom_title_none:
  assumes "CHR ''#'' \<notin> set s"
  shows "execFrom StartOfLine (snd titleRe) prev s = None"
  using assms
proof (induction s arbitrary: prev)
  case Nil
  then show ?case by (simp add: titleRe_def lits_def)
next
  case (Cons x xs)
  then have "x \<noteq> CHR ''#''" and "CHR ''#'' \<notin> set xs" by auto
  then show ?case using Cons.IH by (simp add: titleRe_def lits_def)
qed

lemma extractDescription_absent:
  assumes "\<not> prefix ''---'' s" and "CHR ''#'' \<notin> set s"
  shows "extractDescription s = None"
  using matchGroup_frontmatter_none [OF assms(1)] execFrom_title_none [OF assms(2)]
  by (simp add: extractDescription_def matchGroup_def titleRe_def)

text \<open>
  C4 fails on the code. In the first text the front matter has one line with
  \<^verbatim>\<open>description:\<close>, and nothing follows the key on it; the white space that the
  pattern skips after the key includes the line feed, so the description returned is the next
  line. In the second text the only line that begins with \<^verbatim>\<open>#\<close> has nothing
  after the mark, and the title returned is again the next line.
\<close>

theorem extractDescription_takes_next_line:
  "extractDescription ''---\<newline>description:\<newline>name: x\<newline>---'' = Some ''name: x''
   \<and> splitLines ''---\<newline>description:\<newline>name: x\<newline>---''
       = [''---'', ''description:'', ''name: x'', ''---'']
   \<and> spec_remainders ''description:'' ''---\<newline>description:\<newline>name: x\<newline>---'' = [[]]
   \<and> extractDescription ''#\<newline>foo'' = Some ''foo''
   \<and> splitLines ''#\<newline>foo'' = [''#'', ''foo'']
   \<and> spec_remainders ''#'' ''#\<newline>foo'' = [[]]"
  by code_simp

end
